theory Spec2Isabelle
  imports Complex_Main
begin

section \<open>Numbers, vectors and configuration\<close>

text \<open>
  The fluid background component (FluidBackground) computes with JavaScript numbers on
  the CPU and with GLSL floats on the GPU. Both are modelled as real numbers: rounding,
  infinities and NaN are outside the model. Texture dimensions and handles are naturals,
  millisecond timestamps are integers.
\<close>

type_synonym vec2 = "real \<times> real"

datatype vec4 = Vec4 (vx: real) (vy: real) (vz: real) (vw: real)

datatype RGB = RGB (rgb_r: real) (rgb_g: real) (rgb_b: real)

record config =
  SIM_RESOLUTION :: real
  DYE_RESOLUTION :: real
  DENSITY_DISSIPATION :: real
  VELOCITY_DISSIPATION :: real
  PRESSURE :: real
  PRESSURE_ITERATIONS :: nat
  CURL :: real
  SPLAT_RADIUS :: real
  SPLAT_FORCE :: real
  SHADING :: bool
  COLOR_UPDATE_SPEED :: real
  BACK_COLOR :: RGB
  TRANSPARENT :: bool

definition CONFIG :: config where
  "CONFIG = \<lparr> SIM_RESOLUTION = 128, DYE_RESOLUTION = 1440,
      DENSITY_DISSIPATION = 99 / 100, VELOCITY_DISSIPATION = 99 / 100,
      PRESSURE = 1 / 10, PRESSURE_ITERATIONS = 20, CURL = 5,
      SPLAT_RADIUS = 15 / 10, SPLAT_FORCE = 200, SHADING = True,
      COLOR_UPDATE_SPEED = 1 / 10,
      BACK_COLOR = RGB (58 / 1000) (9 / 100) (164 / 1000), TRANSPARENT = True \<rparr>"

text \<open>
  The capability downgrade that follows getWebGLContext: without linear filtering on
  floating-point textures the dye resolution drops to 256 and shading is switched off.
\<close>

definition downgradeConfig :: "bool \<Rightarrow> config \<Rightarrow> config" where
  "downgradeConfig supportLinear c =
     (if \<not> supportLinear then c\<lparr> DYE_RESOLUTION := 256, SHADING := False \<rparr> else c)"

section \<open>GL objects\<close>

datatype internalFormat = R16F | RG16F | RGBA16F

datatype filterMode = NEAREST | LINEAR

datatype shaderType = VERTEX_SHADER | FRAGMENT_SHADER

text \<open>
  A texture object: its size, the channels it stores, its minification and magnification
  filter (the code sets both to the same value, and both wrap modes to CLAMP_TO_EDGE),
  and one vec4 per texel. Only texels inside the size are ever read or written.
\<close>

record WebGLTexture =
  imgWidth :: nat
  imgHeight :: nat
  imgFormat :: internalFormat
  minMagFilter :: filterMode
  texels :: "int \<Rightarrow> int \<Rightarrow> vec4"

record FBO =
  width :: nat
  height :: nat
  texelSizeX :: real
  texelSizeY :: real
  texture :: nat
  fbo :: nat

text \<open>
  createDoubleFBO returns an object whose read and write accessors close over the two
  variables fbo1 and fbo2 (read_FBO and write_FBO are the two getters). Its own fields
  width, height, texelSizeX and texelSizeY carry the prefix d here, to tell them from the
  fields of an FBO.
\<close>

record DoubleFBO =
  dwidth :: nat
  dheight :: nat
  dtexelSizeX :: real
  dtexelSizeY :: real
  fbo1 :: FBO
  fbo2 :: FBO

definition read_FBO :: "DoubleFBO \<Rightarrow> FBO" where
  "read_FBO d = fbo1 d"

definition write_FBO :: "DoubleFBO \<Rightarrow> FBO" where
  "write_FBO d = fbo2 d"

record Material =
  vertexShader :: nat
  fragmentShaderSource :: string
  programs :: "int \<Rightarrow> nat option"
  activeProgram :: "nat option"
  uniforms :: "string \<Rightarrow> (nat \<times> string) option"

datatype error = TypeError | UndefinedColor

text \<open>
  The state the component works on. The first block is the WebGL context: texture,
  framebuffer, shader and program objects by handle, each kind with the number of
  handles handed out so far; the uniforms the GLSL compiler reports as active for a
  vertex and a fragment source; the linear filtering capability; the canvas size
  (the drawing buffer has the size of the canvas). The second block is the JavaScript
  side: the DoubleFBO objects by reference, and the variables of the effect closure.
\<close>

record world =
  glTextures :: "nat \<Rightarrow> WebGLTexture"
  textureCount :: nat
  glFramebuffers :: "nat \<Rightarrow> nat"
  framebufferCount :: nat
  glShaders :: "nat \<Rightarrow> shaderType \<times> string"
  shaderCount :: nat
  glPrograms :: "nat \<Rightarrow> nat \<times> nat"
  programCount :: nat
  activeUniforms :: "string \<Rightarrow> string \<Rightarrow> string list"
  supportLinearFiltering :: bool
  canvasWidth :: nat
  canvasHeight :: nat
  doubleFBOs :: "nat \<Rightarrow> DoubleFBO"
  doubleFBOCount :: nat
  config :: config
  displayMaterial :: Material
  dye :: "nat option"
  velocity :: "nat option"
  divergence :: "FBO option"
  curl :: "FBO option"
  pressure :: "nat option"
  colorTimer :: real
  timeAccumulator :: real
  lastUpdateTime :: int

section \<open>Shader program cache\<close>

text \<open>
  hashCode works on 32-bit integers: the shift and the final \<open>|= 0\<close> both wrap to the
  signed 32-bit range. Keywords are ASCII identifiers, so a character is its code.
\<close>

definition toInt32 :: "int \<Rightarrow> int" where
  "toInt32 i = (i + 2 ^ 31) mod 2 ^ 32 - 2 ^ 31"

definition hashCode :: "string \<Rightarrow> int" where
  "hashCode s =
     (if length s = 0 then 0
      else foldl (\<lambda>hash c. toInt32 (toInt32 (hash * 2 ^ 5) - hash + of_char c)) 0 s)"

definition addKeywords :: "string \<Rightarrow> string list option \<Rightarrow> string" where
  "addKeywords source keywords =
     (case keywords of
        None \<Rightarrow> source
      | Some ks \<Rightarrow>
          foldl (\<lambda>keywordsString keyword.
                   keywordsString @ ''#define '' @ keyword @ [CHR 0x0A]) [] ks @ source)"

text \<open>
  compileShader and createProgram allocate a shader and a program object. A failed
  compilation or link is only logged, and the object is returned all the same.
\<close>

definition compileShader ::
  "shaderType \<Rightarrow> string \<Rightarrow> string list option \<Rightarrow> world \<Rightarrow> nat \<times> world" where
  "compileShader type source keywords s =
     (let shader = shaderCount s
      in (shader, s\<lparr> glShaders := (glShaders s)(shader := (type, addKeywords source keywords)),
                      shaderCount := Suc shader \<rparr>))"

definition createProgram :: "nat \<Rightarrow> nat \<Rightarrow> world \<Rightarrow> nat \<times> world" where
  "createProgram vs fragmentShader s =
     (let program = programCount s
      in (program, s\<lparr> glPrograms := (glPrograms s)(program := (vs, fragmentShader)),
                       programCount := Suc program \<rparr>))"

text \<open>
  getUniforms asks the context for the active uniforms of a program and records the
  location of each by name. A location is the program together with the name.
\<close>

definition getUniforms :: "nat \<Rightarrow> world \<Rightarrow> (string \<Rightarrow> (nat \<times> string) option)" where
  "getUniforms program s =
     (let vsrc = snd (glShaders s (fst (glPrograms s program)));
          fsrc = snd (glShaders s (snd (glPrograms s program)))
      in foldl (\<lambda>us uniformName. us(uniformName \<mapsto> (program, uniformName)))
               Map.empty (activeUniforms s vsrc fsrc))"

definition keywordsHash :: "string list \<Rightarrow> int" where
  "keywordsHash keywords = foldl (\<lambda>hash keyword. hash + hashCode keyword) 0 keywords"

definition setKeywords :: "string list \<Rightarrow> Material \<Rightarrow> world \<Rightarrow> Material \<times> world" where
  "setKeywords keywords m s =
     (let hash = keywordsHash keywords;
          (program, m1, s1) =
            (case programs m hash of
               None \<Rightarrow>
                 (let (fragmentShader, sa) =
                        compileShader FRAGMENT_SHADER (fragmentShaderSource m) (Some keywords) s;
                      (program, sb) = createProgram (vertexShader m) fragmentShader sa
                  in (program, m\<lparr> programs := (programs m)(hash \<mapsto> program) \<rparr>, sb))
             | Some program \<Rightarrow> (program, m, s))
      in if activeProgram m1 = Some program then (m1, s1)
         else (m1\<lparr> uniforms := getUniforms program s1, activeProgram := Some program \<rparr>, s1))"

definition displayKeywords :: "config \<Rightarrow> string list" where
  "displayKeywords c = (if SHADING c then [''SHADING''] else [])"

definition updateKeywords :: "world \<Rightarrow> world" where
  "updateKeywords s =
     (let (m, s1) = setKeywords (displayKeywords (config s)) (displayMaterial s) s
      in s1\<lparr> displayMaterial := m \<rparr>)"

section \<open>Sampling and drawing\<close>

definition smul4 :: "real \<Rightarrow> vec4 \<Rightarrow> vec4" where
  "smul4 k c = Vec4 (k * vx c) (k * vy c) (k * vz c) (k * vw c)"

definition add4 :: "vec4 \<Rightarrow> vec4 \<Rightarrow> vec4" where
  "add4 a b = Vec4 (vx a + vx b) (vy a + vy b) (vz a + vz b) (vw a + vw b)"

definition mix :: "vec4 \<Rightarrow> vec4 \<Rightarrow> real \<Rightarrow> vec4" where
  "mix a b k = add4 (smul4 (1 - k) a) (smul4 k b)"

definition vlength :: "vec2 \<Rightarrow> real" where
  "vlength p = sqrt (fst p * fst p + snd p * snd p)"

text \<open>
  The GLSL built-in texture2D on a texture with CLAMP_TO_EDGE wrapping: NEAREST takes the
  texel that contains the coordinate, LINEAR blends the four texels around it; a texel
  index outside the image is clamped to the edge.
\<close>

definition clampedTexel :: "WebGLTexture \<Rightarrow> int \<Rightarrow> int \<Rightarrow> vec4" where
  "clampedTexel t i j =
     texels t (max 0 (min (int (imgWidth t) - 1) i)) (max 0 (min (int (imgHeight t) - 1) j))"

definition texture2D :: "WebGLTexture \<Rightarrow> vec2 \<Rightarrow> vec4" where
  "texture2D t uv =
     (case minMagFilter t of
        NEAREST \<Rightarrow>
          clampedTexel t \<lfloor>fst uv * real (imgWidth t)\<rfloor> \<lfloor>snd uv * real (imgHeight t)\<rfloor>
      | LINEAR \<Rightarrow>
          (let a = fst uv * real (imgWidth t) - 1 / 2;
               b = snd uv * real (imgHeight t) - 1 / 2;
               i = \<lfloor>a\<rfloor>;
               j = \<lfloor>b\<rfloor>
           in mix (mix (clampedTexel t i j) (clampedTexel t (i + 1) j) (frac a))
                  (mix (clampedTexel t i (j + 1)) (clampedTexel t (i + 1) (j + 1)) (frac a))
                  (frac b)))"

text \<open>What a texture of each internal format keeps of a colour written to it.\<close>

definition storeAs :: "internalFormat \<Rightarrow> vec4 \<Rightarrow> vec4" where
  "storeAs f c =
     (case f of
        R16F \<Rightarrow> Vec4 (vx c) 0 0 1
      | RG16F \<Rightarrow> Vec4 (vx c) (vy c) 0 1
      | RGBA16F \<Rightarrow> c)"

record varyings =
  vUv :: vec2
  vL :: vec2
  vR :: vec2
  vT :: vec2
  vB :: vec2

definition baseVertexShader :: "vec2 \<Rightarrow> vec2 \<Rightarrow> varyings" where
  "baseVertexShader texelSize uv =
     \<lparr> vUv = uv,
       vL = (fst uv - fst texelSize, snd uv),
       vR = (fst uv + fst texelSize, snd uv),
       vT = (fst uv, snd uv + snd texelSize),
       vB = (fst uv, snd uv - snd texelSize) \<rparr>"

text \<open>
  blit draws the full-screen quad into the texture attached to the target's framebuffer:
  every texel of the viewport (the target's width and height) receives the fragment
  shader's colour at the texel's centre. The arguments are the texelSize uniform given to
  the vertex shader and the fragment shader with its other uniforms applied. The code
  never passes clear = true. Blending does not change what is written: it is disabled
  before the draws of initFramebuffers and of step, and the fragments of splat, drawn
  while it may be enabled, have alpha 1.
\<close>

definition blit :: "FBO \<Rightarrow> vec2 \<Rightarrow> (varyings \<Rightarrow> vec4) \<Rightarrow> world \<Rightarrow> world" where
  "blit target texelSize frag s =
     (let h = glFramebuffers s (fbo target);
          t = glTextures s h;
          t' = t\<lparr> texels := (\<lambda>i j.
                 if 0 \<le> i \<and> i < int (width target) \<and> 0 \<le> j \<and> j < int (height target)
                 then storeAs (imgFormat t)
                        (frag (baseVertexShader texelSize
                           ((real_of_int i + 1 / 2) / real (width target),
                            (real_of_int j + 1 / 2) / real (height target))))
                 else texels t i j) \<rparr>
      in s\<lparr> glTextures := (glTextures s)(h := t') \<rparr>)"

text \<open>attach binds the target's texture to a texture unit: the sampler reads this texture.\<close>

definition attach :: "FBO \<Rightarrow> world \<Rightarrow> WebGLTexture" where
  "attach f s = glTextures s (texture f)"

section \<open>Render-target pool\<close>

text \<open>
  createFBO allocates a texture and a framebuffer and clears the texture with the clear
  colour (0, 0, 0, 1), which getWebGLContext has set. The arguments format and type describe
  the (absent) initial pixel data only.
\<close>

definition createFBO ::
  "nat \<Rightarrow> nat \<Rightarrow> internalFormat \<Rightarrow> nat \<Rightarrow> nat \<Rightarrow> filterMode \<Rightarrow> world \<Rightarrow> FBO \<times> world" where
  "createFBO w h internalFormat format type param s =
     (let tex = textureCount s;
          fb = framebufferCount s;
          s1 = s\<lparr> glTextures := (glTextures s)(tex :=
                     \<lparr> imgWidth = w, imgHeight = h, imgFormat = internalFormat,
                       minMagFilter = param, texels = (\<lambda>i j. Vec4 0 0 0 1) \<rparr>),
                  textureCount := Suc tex,
                  glFramebuffers := (glFramebuffers s)(fb := tex),
                  framebufferCount := Suc fb \<rparr>
      in (\<lparr> width = w, height = h, texelSizeX = 1 / real w, texelSizeY = 1 / real h,
            texture = tex, fbo = fb \<rparr>, s1))"

definition createDoubleFBO ::
  "nat \<Rightarrow> nat \<Rightarrow> internalFormat \<Rightarrow> nat \<Rightarrow> nat \<Rightarrow> filterMode \<Rightarrow> world \<Rightarrow> nat \<times> world" where
  "createDoubleFBO w h internalFormat format type param s =
     (let (f1, s1) = createFBO w h internalFormat format type param s;
          (f2, s2) = createFBO w h internalFormat format type param s1;
          ref = doubleFBOCount s2
      in (ref, s2\<lparr> doubleFBOs := (doubleFBOs s2)(ref :=
                      \<lparr> dwidth = w, dheight = h,
                        dtexelSizeX = texelSizeX f1, dtexelSizeY = texelSizeY f1,
                        fbo1 = f1, fbo2 = f2 \<rparr>),
                    doubleFBOCount := Suc ref \<rparr>))"

definition swapFBO :: "DoubleFBO \<Rightarrow> DoubleFBO" where
  "swapFBO d = (let temp = fbo1 d in d\<lparr> fbo1 := fbo2 d, fbo2 := temp \<rparr>)"

definition swap :: "nat \<Rightarrow> world \<Rightarrow> world" where
  "swap ref s = s\<lparr> doubleFBOs := (doubleFBOs s)(ref := swapFBO (doubleFBOs s ref)) \<rparr>"

definition copyShader :: "WebGLTexture \<Rightarrow> varyings \<Rightarrow> vec4" where
  "copyShader uTexture v = texture2D uTexture (vUv v)"

text \<open>The texelSize uniform of copyProgram is never set and keeps its initial value 0.\<close>

definition resizeFBO ::
  "FBO \<Rightarrow> nat \<Rightarrow> nat \<Rightarrow> internalFormat \<Rightarrow> nat \<Rightarrow> nat \<Rightarrow> filterMode \<Rightarrow> world \<Rightarrow> FBO \<times> world" where
  "resizeFBO target w h internalFormat format type param s =
     (let (newFBO, s1) = createFBO w h internalFormat format type param s
      in (newFBO, blit newFBO (0, 0) (copyShader (attach target s1)) s1))"

definition resizeDoubleFBO ::
  "nat \<Rightarrow> nat \<Rightarrow> nat \<Rightarrow> internalFormat \<Rightarrow> nat \<Rightarrow> nat \<Rightarrow> filterMode \<Rightarrow> world \<Rightarrow> nat \<times> world" where
  "resizeDoubleFBO target w h internalFormat format type param s =
     (if dwidth (doubleFBOs s target) = w \<and> dheight (doubleFBOs s target) = h then (target, s)
      else
        (let (newRead, s1) =
               resizeFBO (read_FBO (doubleFBOs s target)) w h internalFormat format type param s;
             s2 = s1\<lparr> doubleFBOs := (doubleFBOs s1)(target :=
                        (doubleFBOs s1 target)\<lparr> fbo1 := newRead \<rparr>) \<rparr>;
             (newWrite, s3) = createFBO w h internalFormat format type param s2;
             s4 = s3\<lparr> doubleFBOs := (doubleFBOs s3)(target :=
                        (doubleFBOs s3 target)\<lparr> fbo2 := newWrite \<rparr>) \<rparr>
         in (target, s4\<lparr> doubleFBOs := (doubleFBOs s4)(target :=
                           (doubleFBOs s4 target)\<lparr> dwidth := w, dheight := h,
                              dtexelSizeX := 1 / real w, dtexelSizeY := 1 / real h \<rparr>) \<rparr>)))"

definition getResolution :: "real \<Rightarrow> world \<Rightarrow> nat \<times> nat" where
  "getResolution resolution s =
     (let aspectRatio0 = real (canvasWidth s) / real (canvasHeight s);
          aspectRatio = (if aspectRatio0 < 1 then 1 / aspectRatio0 else aspectRatio0);
          min_r = nat (round resolution);
          max_r = nat (round (resolution * aspectRatio))
      in if canvasWidth s > canvasHeight s then (max_r, min_r) else (min_r, max_r))"

text \<open>
  initFramebuffers. The formats and the texel type come from the resolved feature set;
  their numeric GL codes play no role and are passed as 0.
\<close>

definition initFramebuffers :: "world \<Rightarrow> world" where
  "initFramebuffers s =
     (let simRes = getResolution (SIM_RESOLUTION (config s)) s;
          dyeRes = getResolution (DYE_RESOLUTION (config s)) s;
          filtering = (if supportLinearFiltering s then LINEAR else NEAREST);
          (d, s1) = (case dye s of
                       None \<Rightarrow> createDoubleFBO (fst dyeRes) (snd dyeRes) RGBA16F 0 0 filtering s
                     | Some r \<Rightarrow> resizeDoubleFBO r (fst dyeRes) (snd dyeRes) RGBA16F 0 0 filtering s);
          s2 = s1\<lparr> dye := Some d \<rparr>;
          (v, s3) = (case velocity s2 of
                       None \<Rightarrow> createDoubleFBO (fst simRes) (snd simRes) RG16F 0 0 filtering s2
                     | Some r \<Rightarrow> resizeDoubleFBO r (fst simRes) (snd simRes) RG16F 0 0 filtering s2);
          s4 = s3\<lparr> velocity := Some v \<rparr>;
          (dv, s5) = createFBO (fst simRes) (snd simRes) R16F 0 0 NEAREST s4;
          s6 = s5\<lparr> divergence := Some dv \<rparr>;
          (c, s7) = createFBO (fst simRes) (snd simRes) R16F 0 0 NEAREST s6;
          s8 = s7\<lparr> curl := Some c \<rparr>;
          (p, s9) = createDoubleFBO (fst simRes) (snd simRes) R16F 0 0 NEAREST s8
      in s9\<lparr> pressure := Some p \<rparr>)"

section \<open>Fragment shaders of the solver\<close>

definition curlShader :: "WebGLTexture \<Rightarrow> varyings \<Rightarrow> vec4" where
  "curlShader uVelocity v =
     (let L = vy (texture2D uVelocity (vL v));
          R = vy (texture2D uVelocity (vR v));
          T = vx (texture2D uVelocity (vT v));
          B = vx (texture2D uVelocity (vB v));
          vorticity = R - L - T + B
      in Vec4 (1 / 2 * vorticity) 0 0 1)"

text \<open>
  The confinement force of vorticityShader before it is added to the velocity; the
  divisor of its normalisation is vorticityDivisor.
\<close>

definition vorticityGradient :: "WebGLTexture \<Rightarrow> varyings \<Rightarrow> vec2" where
  "vorticityGradient uCurl v =
     (let L = vx (texture2D uCurl (vL v));
          R = vx (texture2D uCurl (vR v));
          T = vx (texture2D uCurl (vT v));
          B = vx (texture2D uCurl (vB v))
      in (1 / 2 * (\<bar>T\<bar> - \<bar>B\<bar>), 1 / 2 * (\<bar>R\<bar> - \<bar>L\<bar>)))"

definition vorticityDivisor :: "WebGLTexture \<Rightarrow> varyings \<Rightarrow> real" where
  "vorticityDivisor uCurl v = vlength (vorticityGradient uCurl v) + 1 / 10000"

definition vorticityShader ::
  "WebGLTexture \<Rightarrow> WebGLTexture \<Rightarrow> real \<Rightarrow> real \<Rightarrow> varyings \<Rightarrow> vec4" where
  "vorticityShader uVelocity uCurl curl_u dt v =
     (let C = vx (texture2D uCurl (vUv v));
          force0 = vorticityGradient uCurl v;
          force1 = (fst force0 / vorticityDivisor uCurl v, snd force0 / vorticityDivisor uCurl v);
          force2 = (fst force1 * (curl_u * C), snd force1 * (curl_u * C));
          force = (fst force2, snd force2 * (- 1));
          velocity0 = (vx (texture2D uVelocity (vUv v)), vy (texture2D uVelocity (vUv v)));
          velocity1 = (fst velocity0 + fst force * dt, snd velocity0 + snd force * dt);
          velocity2 = (min (max (fst velocity1) (- 1000)) 1000,
                       min (max (snd velocity1) (- 1000)) 1000)
      in Vec4 (fst velocity2) (snd velocity2) 0 1)"

definition divergenceShader :: "WebGLTexture \<Rightarrow> varyings \<Rightarrow> vec4" where
  "divergenceShader uVelocity v =
     (let L0 = vx (texture2D uVelocity (vL v));
          R0 = vx (texture2D uVelocity (vR v));
          T0 = vy (texture2D uVelocity (vT v));
          B0 = vy (texture2D uVelocity (vB v));
          C = (vx (texture2D uVelocity (vUv v)), vy (texture2D uVelocity (vUv v)));
          L = (if fst (vL v) < 0 then - fst C else L0);
          R = (if fst (vR v) > 1 then - fst C else R0);
          T = (if snd (vT v) > 1 then - snd C else T0);
          B = (if snd (vB v) < 0 then - snd C else B0);
          div_v = 1 / 2 * (R - L + T - B)
      in Vec4 div_v 0 0 1)"

definition clearShader :: "WebGLTexture \<Rightarrow> real \<Rightarrow> varyings \<Rightarrow> vec4" where
  "clearShader uTexture value v = smul4 value (texture2D uTexture (vUv v))"

definition pressureShader :: "WebGLTexture \<Rightarrow> WebGLTexture \<Rightarrow> varyings \<Rightarrow> vec4" where
  "pressureShader uPressure uDivergence v =
     (let L = vx (texture2D uPressure (vL v));
          R = vx (texture2D uPressure (vR v));
          T = vx (texture2D uPressure (vT v));
          B = vx (texture2D uPressure (vB v));
          divergence_v = vx (texture2D uDivergence (vUv v));
          pressure_v = (L + R + B + T - divergence_v) * (1 / 4)
      in Vec4 pressure_v 0 0 1)"

definition gradientSubtractShader :: "WebGLTexture \<Rightarrow> WebGLTexture \<Rightarrow> varyings \<Rightarrow> vec4" where
  "gradientSubtractShader uPressure uVelocity v =
     (let L = vx (texture2D uPressure (vL v));
          R = vx (texture2D uPressure (vR v));
          T = vx (texture2D uPressure (vT v));
          B = vx (texture2D uPressure (vB v));
          velocity0 = (vx (texture2D uVelocity (vUv v)), vy (texture2D uVelocity (vUv v)))
      in Vec4 (fst velocity0 - (R - L)) (snd velocity0 - (T - B)) 0 1)"

definition bilerp :: "WebGLTexture \<Rightarrow> vec2 \<Rightarrow> vec2 \<Rightarrow> vec4" where
  "bilerp sam uv tsize =
     (let st = (fst uv / fst tsize - 1 / 2, snd uv / snd tsize - 1 / 2);
          iuv = (real_of_int \<lfloor>fst st\<rfloor>, real_of_int \<lfloor>snd st\<rfloor>);
          fuv = (frac (fst st), frac (snd st));
          a = texture2D sam ((fst iuv + 1 / 2) * fst tsize, (snd iuv + 1 / 2) * snd tsize);
          b = texture2D sam ((fst iuv + 3 / 2) * fst tsize, (snd iuv + 1 / 2) * snd tsize);
          c = texture2D sam ((fst iuv + 1 / 2) * fst tsize, (snd iuv + 3 / 2) * snd tsize);
          d = texture2D sam ((fst iuv + 3 / 2) * fst tsize, (snd iuv + 3 / 2) * snd tsize)
      in mix (mix a b (fst fuv)) (mix c d (fst fuv)) (snd fuv))"

text \<open>
  advectionShader is compiled with MANUAL_FILTERING exactly when linear filtering is not
  supported; the first argument is that keyword.
\<close>

definition advectionShader ::
  "bool \<Rightarrow> WebGLTexture \<Rightarrow> WebGLTexture \<Rightarrow> vec2 \<Rightarrow> vec2 \<Rightarrow> real \<Rightarrow> real \<Rightarrow> varyings \<Rightarrow> vec4" where
  "advectionShader manualFiltering uVelocity uSource texelSize dyeTexelSize dt dissipation v =
     (let result =
            (if manualFiltering then
               (let vel = bilerp uVelocity (vUv v) texelSize;
                    coord = (fst (vUv v) - dt * vx vel * fst texelSize,
                             snd (vUv v) - dt * vy vel * snd texelSize)
                in bilerp uSource coord dyeTexelSize)
             else
               (let vel = texture2D uVelocity (vUv v);
                    coord = (fst (vUv v) - dt * vx vel * fst texelSize,
                             snd (vUv v) - dt * vy vel * snd texelSize)
                in texture2D uSource coord));
          decay = 1 + dissipation * dt
      in Vec4 (vx result / decay) (vy result / decay) (vz result / decay) (vw result / decay))"

definition splatShader ::
  "WebGLTexture \<Rightarrow> real \<Rightarrow> real \<times> real \<times> real \<Rightarrow> vec2 \<Rightarrow> real \<Rightarrow> varyings \<Rightarrow> vec4" where
  "splatShader uTarget aspectRatio color point radius v =
     (let p0 = (fst (vUv v) - fst point, snd (vUv v) - snd point);
          p = (fst p0 * aspectRatio, snd p0);
          k = exp (- (fst p * fst p + snd p * snd p) / radius);
          base = texture2D uTarget (vUv v)
      in Vec4 (vx base + k * fst color) (vy base + k * fst (snd color))
              (vz base + k * snd (snd color)) 1)"

section \<open>One simulation step\<close>

text \<open>
  The passes of step, in the order of the code. The arguments v, p and d are the
  references held by the variables velocity, pressure and dye; c and dv are the
  targets held by curl and divergence.
\<close>

definition velocityTexel :: "nat \<Rightarrow> world \<Rightarrow> vec2" where
  "velocityTexel v s = (dtexelSizeX (doubleFBOs s v), dtexelSizeY (doubleFBOs s v))"

definition curlPass :: "nat \<Rightarrow> FBO \<Rightarrow> world \<Rightarrow> world" where
  "curlPass v c s =
     blit c (velocityTexel v s) (curlShader (attach (read_FBO (doubleFBOs s v)) s)) s"

definition vorticityPass :: "real \<Rightarrow> nat \<Rightarrow> FBO \<Rightarrow> world \<Rightarrow> world" where
  "vorticityPass dt v c s =
     swap v (blit (write_FBO (doubleFBOs s v)) (velocityTexel v s)
               (vorticityShader (attach (read_FBO (doubleFBOs s v)) s) (attach c s)
                  (CURL (config s)) dt) s)"

definition divergencePass :: "nat \<Rightarrow> FBO \<Rightarrow> world \<Rightarrow> world" where
  "divergencePass v dv s =
     blit dv (velocityTexel v s) (divergenceShader (attach (read_FBO (doubleFBOs s v)) s)) s"

text \<open>clearProgram's texelSize uniform is never set.\<close>

definition pressureDecayPass :: "nat \<Rightarrow> world \<Rightarrow> world" where
  "pressureDecayPass p s =
     swap p (blit (write_FBO (doubleFBOs s p)) (0, 0)
               (clearShader (attach (read_FBO (doubleFBOs s p)) s) (PRESSURE (config s))) s)"

definition pressureIteration :: "nat \<Rightarrow> nat \<Rightarrow> FBO \<Rightarrow> world \<Rightarrow> world" where
  "pressureIteration v p dv s =
     swap p (blit (write_FBO (doubleFBOs s p)) (velocityTexel v s)
               (pressureShader (attach (read_FBO (doubleFBOs s p)) s) (attach dv s)) s)"

definition gradientSubtractPass :: "nat \<Rightarrow> nat \<Rightarrow> world \<Rightarrow> world" where
  "gradientSubtractPass v p s =
     swap v (blit (write_FBO (doubleFBOs s v)) (velocityTexel v s)
               (gradientSubtractShader (attach (read_FBO (doubleFBOs s p)) s)
                  (attach (read_FBO (doubleFBOs s v)) s)) s)"

definition advectVelocityPass :: "real \<Rightarrow> nat \<Rightarrow> world \<Rightarrow> world" where
  "advectVelocityPass dt v s =
     swap v (blit (write_FBO (doubleFBOs s v)) (velocityTexel v s)
               (advectionShader (\<not> supportLinearFiltering s)
                  (attach (read_FBO (doubleFBOs s v)) s) (attach (read_FBO (doubleFBOs s v)) s)
                  (velocityTexel v s) (velocityTexel v s) dt (VELOCITY_DISSIPATION (config s))) s)"

definition advectDyePass :: "real \<Rightarrow> nat \<Rightarrow> nat \<Rightarrow> world \<Rightarrow> world" where
  "advectDyePass dt v d s =
     swap d (blit (write_FBO (doubleFBOs s d)) (velocityTexel v s)
               (advectionShader (\<not> supportLinearFiltering s)
                  (attach (read_FBO (doubleFBOs s v)) s) (attach (read_FBO (doubleFBOs s d)) s)
                  (velocityTexel v s) (dtexelSizeX (doubleFBOs s d), dtexelSizeY (doubleFBOs s d))
                  dt (DENSITY_DISSIPATION (config s))) s)"

definition stepPasses :: "real \<Rightarrow> nat \<Rightarrow> nat \<Rightarrow> nat \<Rightarrow> FBO \<Rightarrow> FBO \<Rightarrow> world \<Rightarrow> world" where
  "stepPasses dt v p d c dv s =
     (let s1 = curlPass v c s;
          s2 = vorticityPass dt v c s1;
          s3 = divergencePass v dv s2;
          s4 = pressureDecayPass p s3;
          s5 = (pressureIteration v p dv ^^ PRESSURE_ITERATIONS (config s4)) s4;
          s6 = gradientSubtractPass v p s5;
          s7 = advectVelocityPass dt v s6
      in advectDyePass dt v d s7)"

text \<open>
  step reads the five field variables; one that is still undefined makes the first
  property access on it throw a TypeError.
\<close>

definition step :: "real \<Rightarrow> world \<Rightarrow> error + world" where
  "step dt s =
     (case (velocity s, pressure s, dye s, curl s, divergence s) of
        (Some v, Some p, Some d, Some c, Some dv) \<Rightarrow> Inr (stepPasses dt v p d c dv s)
      | _ \<Rightarrow> Inl TypeError)"

section \<open>Force and colour injector\<close>

text \<open>The remainder operator of JavaScript takes the sign of the dividend.\<close>

definition jsRem :: "int \<Rightarrow> int \<Rightarrow> int" where
  "jsRem a b = sgn a * (\<bar>a\<bar> mod \<bar>b\<bar>)"

text \<open>
  HSVtoRGB leaves r, g and b undefined in the default branch of its switch; the result
  is then None.
\<close>

definition HSVtoRGB :: "real \<Rightarrow> real \<Rightarrow> real \<Rightarrow> RGB option" where
  "HSVtoRGB h s v =
     (let i = \<lfloor>h * 6\<rfloor>;
          f = h * 6 - real_of_int i;
          p = v * (1 - s);
          q = v * (1 - f * s);
          t = v * (1 - (1 - f) * s);
          m = jsRem i 6
      in if m = 0 then Some (RGB v t p)
         else if m = 1 then Some (RGB q v p)
         else if m = 2 then Some (RGB p v t)
         else if m = 3 then Some (RGB p q v)
         else if m = 4 then Some (RGB t p v)
         else if m = 5 then Some (RGB v p q)
         else None)"

text \<open>The hue that generateColor derives from the advanced colour timer.\<close>

definition hue :: "real \<Rightarrow> real" where
  "hue colorTimer1 = 55 / 100 + sin (colorTimer1 * pi * 2) * (1 / 10)"

definition generateColor :: "world \<Rightarrow> RGB option \<times> world" where
  "generateColor s =
     (let colorTimer0 = colorTimer s + 5 / 1000 * COLOR_UPDATE_SPEED (config s);
          colorTimer1 = (if colorTimer0 > 1 then colorTimer0 - 1 else colorTimer0);
          h = hue colorTimer1;
          c = HSVtoRGB h (4 / 10) (2 / 10)
      in (map_option (\<lambda>c. RGB (rgb_r c * (15 / 100)) (rgb_g c * (15 / 100)) (rgb_b c * (15 / 100))) c,
          s\<lparr> colorTimer := colorTimer1 \<rparr>))"

definition correctRadius :: "real \<Rightarrow> world \<Rightarrow> real" where
  "correctRadius radius s =
     (let aspectRatio = real (canvasWidth s) / real (canvasHeight s)
      in if aspectRatio > 1 then radius * aspectRatio else radius)"

text \<open>splatProgram's texelSize uniform is never set.\<close>

definition splat :: "real \<Rightarrow> real \<Rightarrow> real \<Rightarrow> real \<Rightarrow> RGB \<Rightarrow> world \<Rightarrow> error + world" where
  "splat x y dx dy color s =
     (case (velocity s, dye s) of
        (Some v, Some d) \<Rightarrow>
          (let aspectRatio = real (canvasWidth s) / real (canvasHeight s);
               radius = correctRadius (SPLAT_RADIUS (config s) / 100) s;
               s1 = swap v (blit (write_FBO (doubleFBOs s v)) (0, 0)
                              (splatShader (attach (read_FBO (doubleFBOs s v)) s) aspectRatio
                                 (dx, dy, 0) (x, y) radius) s);
               s2 = swap d (blit (write_FBO (doubleFBOs s1 d)) (0, 0)
                              (splatShader (attach (read_FBO (doubleFBOs s1 d)) s1) aspectRatio
                                 (rgb_r color, rgb_g color, rgb_b color) (x, y) radius) s1)
           in Inr s2)
      | _ \<Rightarrow> Inl TypeError)"

text \<open>
  autoSplat. A colour with undefined channels cannot be followed further in this model
  and ends the frame with UndefinedColor.
\<close>

definition autoSplat :: "real \<Rightarrow> world \<Rightarrow> error + world" where
  "autoSplat dt s =
     (let s0 = s\<lparr> timeAccumulator := timeAccumulator s + dt \<rparr>;
          t = timeAccumulator s0;
          currentRadius = 4 / 10 * (1 - exp (- t * (2 / 10)))
                          + sin (t * (5 / 10)) * (5 / 100) * min (t * (1 / 10)) 1;
          angle = t * (3 / 10);
          x1 = 1 / 2 + cos angle * currentRadius;
          y1 = 1 / 2 + sin angle * currentRadius * (8 / 10);
          dx1 = - sin angle * 15;
          dy1 = cos angle * 15;
          x2 = 1 / 2 + cos (angle + pi) * currentRadius;
          y2 = 1 / 2 + sin (angle + pi) * currentRadius * (8 / 10);
          dx2 = - sin (angle + pi) * 15;
          dy2 = cos (angle + pi) * 15;
          (color, s1) = generateColor s0
      in case color of
           None \<Rightarrow> Inl UndefinedColor
         | Some col \<Rightarrow>
             (case splat x1 (1 - y1) (dx1 * (2 / 10)) (dy1 * (2 / 10)) col s1 of
                Inl e \<Rightarrow> Inl e
              | Inr s2 \<Rightarrow> splat x2 (1 - y2) (dx2 * (2 / 10)) (dy2 * (2 / 10)) col s2))"

section \<open>Frame scheduler\<close>

definition calcDeltaTime :: "int \<Rightarrow> world \<Rightarrow> real \<times> world" where
  "calcDeltaTime now s =
     (let dt0 = real_of_int (now - lastUpdateTime s) / 1000;
          dt = min dt0 (16666 / 1000000)
      in (dt, s\<lparr> lastUpdateTime := now \<rparr>))"

text \<open>What one tick reads from its environment: the clock and the layout of the canvas.\<close>

record frameEnv =
  envNow :: int
  envClientWidth :: nat
  envClientHeight :: nat
  envDevicePixelRatio :: real

definition scaleByPixelRatio :: "nat \<Rightarrow> real \<Rightarrow> nat" where
  "scaleByPixelRatio input devicePixelRatio =
     (let pixelRatio = (if devicePixelRatio = 0 then 1 else devicePixelRatio)
      in nat \<lfloor>real input * pixelRatio\<rfloor>)"

definition resizeCanvas :: "frameEnv \<Rightarrow> world \<Rightarrow> bool \<times> world" where
  "resizeCanvas env s =
     (let w = scaleByPixelRatio (envClientWidth env) (envDevicePixelRatio env);
          h = scaleByPixelRatio (envClientHeight env) (envDevicePixelRatio env)
      in if canvasWidth s \<noteq> w \<or> canvasHeight s \<noteq> h
         then (True, s\<lparr> canvasWidth := w, canvasHeight := h \<rparr>)
         else (False, s))"

text \<open>
  updateFrame up to and including the solver step. The display pass that follows draws
  to the canvas and changes nothing of the state kept here.
\<close>

definition frameBody :: "real \<Rightarrow> world \<Rightarrow> error + world" where
  "frameBody dt s = (case autoSplat dt s of Inl e \<Rightarrow> Inl e | Inr s1 \<Rightarrow> step dt s1)"

definition updateFrame :: "frameEnv \<Rightarrow> world \<Rightarrow> error + world" where
  "updateFrame env s =
     (let (dt, s1) = calcDeltaTime (envNow env) s;
          (resized, s2) = resizeCanvas env s1;
          s3 = (if resized then initFramebuffers s2 else s2)
      in frameBody dt s3)"

section \<open>Mounting\<close>

text \<open>
  The body of the effect up to the first scheduled frame, from a context with no objects.
  Its arguments are what the environment decides: the linear filtering capability, the
  uniforms the compiler reports, the size of the canvas, the sources of the vertex shader
  and of the display fragment shader, the value of Math.random and the clock.
\<close>

definition noTexture :: WebGLTexture where
  "noTexture = \<lparr> imgWidth = 0, imgHeight = 0, imgFormat = RGBA16F, minMagFilter = NEAREST,
                  texels = (\<lambda>i j. Vec4 0 0 0 0) \<rparr>"

definition noFBO :: FBO where
  "noFBO = \<lparr> width = 0, height = 0, texelSizeX = 0, texelSizeY = 0, texture = 0, fbo = 0 \<rparr>"

definition newMaterial :: "nat \<Rightarrow> string \<Rightarrow> Material" where
  "newMaterial vs source =
     \<lparr> vertexShader = vs, fragmentShaderSource = source, programs = Map.empty,
       activeProgram = None, uniforms = Map.empty \<rparr>"

definition freshContext ::
  "bool \<Rightarrow> (string \<Rightarrow> string \<Rightarrow> string list) \<Rightarrow> nat \<Rightarrow> nat \<Rightarrow> real \<Rightarrow> int \<Rightarrow> world" where
  "freshContext lin au cw ch rnd now =
     \<lparr> glTextures = (\<lambda>h. noTexture), textureCount = 0,
       glFramebuffers = (\<lambda>h. 0), framebufferCount = 0,
       glShaders = (\<lambda>h. (VERTEX_SHADER, [])), shaderCount = 0,
       glPrograms = (\<lambda>h. (0, 0)), programCount = 0,
       activeUniforms = au, supportLinearFiltering = lin,
       canvasWidth = cw, canvasHeight = ch,
       doubleFBOs = (\<lambda>r. \<lparr> dwidth = 0, dheight = 0, dtexelSizeX = 0, dtexelSizeY = 0,
                             fbo1 = noFBO, fbo2 = noFBO \<rparr>),
       doubleFBOCount = 0,
       config = downgradeConfig lin CONFIG,
       displayMaterial = newMaterial 0 [],
       dye = None, velocity = None, divergence = None, curl = None, pressure = None,
       colorTimer = rnd, timeAccumulator = 0, lastUpdateTime = now \<rparr>"

definition mountEffect ::
  "bool \<Rightarrow> (string \<Rightarrow> string \<Rightarrow> string list) \<Rightarrow> nat \<Rightarrow> nat \<Rightarrow> string \<Rightarrow> string
     \<Rightarrow> real \<Rightarrow> int \<Rightarrow> world" where
  "mountEffect lin au cw ch vertexSource displayShaderSource rnd now =
     (let s0 = freshContext lin au cw ch rnd now;
          (vs, s1) = compileShader VERTEX_SHADER vertexSource None s0;
          s2 = s1\<lparr> displayMaterial := newMaterial vs displayShaderSource \<rparr>
      in initFramebuffers (updateKeywords s2))"

section \<open>Predicates and sample states used in the properties\<close>

text \<open>
  The texel size of a target is the reciprocal of its size; for a double target this is
  said of its own cached fields and of both of its members.
\<close>

definition texelSizeDerived :: "FBO \<Rightarrow> bool" where
  "texelSizeDerived t \<longleftrightarrow>
     texelSizeX t = 1 / real (width t) \<and> texelSizeY t = 1 / real (height t)"

definition doubleTexelSizeDerived :: "DoubleFBO \<Rightarrow> bool" where
  "doubleTexelSizeDerived d \<longleftrightarrow>
     dtexelSizeX d = 1 / real (dwidth d) \<and> dtexelSizeY d = 1 / real (dheight d)
     \<and> texelSizeDerived (read_FBO d) \<and> texelSizeDerived (write_FBO d)"

text \<open>
  The texture that resizeDoubleFBO is to leave behind the read accessor: every texel is
  the texture of the target's first member, as it is in the state before the call, sampled
  at the texel's centre. The old texture is named by its handle in the object and looked
  up in the texture store directly. And a texture as createFBO leaves it.
\<close>

definition resizedRead ::
  "world \<Rightarrow> nat \<Rightarrow> nat \<Rightarrow> nat \<Rightarrow> internalFormat \<Rightarrow> filterMode \<Rightarrow> WebGLTexture" where
  "resizedRead s target w h f p =
     \<lparr> imgWidth = w, imgHeight = h, imgFormat = f, minMagFilter = p,
       texels = (\<lambda>i j. if 0 \<le> i \<and> i < int w \<and> 0 \<le> j \<and> j < int h
                  then storeAs f (texture2D (glTextures s (texture (fbo1 (doubleFBOs s target))))
                         ((real_of_int i + 1 / 2) / real w, (real_of_int j + 1 / 2) / real h))
                  else Vec4 0 0 0 1) \<rparr>"

definition clearedTexture :: "nat \<Rightarrow> nat \<Rightarrow> internalFormat \<Rightarrow> filterMode \<Rightarrow> WebGLTexture" where
  "clearedTexture w h f p =
     \<lparr> imgWidth = w, imgHeight = h, imgFormat = f, minMagFilter = p,
       texels = (\<lambda>i j. Vec4 0 0 0 1) \<rparr>"

text \<open>A texture, and a context, in which the first two channels of every texel are zero.\<close>

definition zeroXY :: "WebGLTexture \<Rightarrow> bool" where
  "zeroXY t \<longleftrightarrow> (\<forall>i j. vx (texels t i j) = 0 \<and> vy (texels t i j) = 0)"

definition allZero :: "world \<Rightarrow> bool" where
  "allZero s \<longleftrightarrow> (\<forall>h. zeroXY (glTextures s h))"

text \<open>
  A small concrete state: a context in which one double target of 4 by 2 texels with two
  channels has been created; its reference is 0.
\<close>

definition sampleWorld :: world where
  "sampleWorld =
     snd (createDoubleFBO 4 2 RG16F 0 0 LINEAR (freshContext True (\<lambda>v f. []) 300 150 0 0))"

text \<open>
  A second concrete state, with content: two double targets of 4 by 2 texels are created,
  a fragment shader that writes the coordinates of each texel's centre is drawn into the
  write member of the second one, and that target is swapped. Its reference is 1; its read
  member is texture 3 and holds the coordinates, its write member is texture 2.
\<close>

definition paintShader :: "varyings \<Rightarrow> vec4" where
  "paintShader v = Vec4 (fst (vUv v)) (snd (vUv v)) 0 1"

definition paintedWorld :: world where
  "paintedWorld =
     (let s0 = freshContext False (\<lambda>v f. []) 300 150 0 0;
          (a, s1) = createDoubleFBO 4 2 RGBA16F 0 0 NEAREST s0;
          (b, s2) = createDoubleFBO 4 2 RG16F 0 0 NEAREST s1
      in swap b (blit (write_FBO (doubleFBOs s2 b)) (0, 0) paintShader s2))"

text \<open>Two states in which the variables of the solver and the configuration agree.\<close>

definition sameVars :: "world \<Rightarrow> world \<Rightarrow> bool" where
  "sameVars s s' \<longleftrightarrow>
     curl s' = curl s \<and> divergence s' = divergence s \<and> pressure s' = pressure s
     \<and> velocity s' = velocity s \<and> dye s' = dye s \<and> config s' = config s"

text \<open>
  A material on which setKeywords has been called once with the keyword SHADING, together
  with the context after that call.
\<close>

definition shadedMaterial :: "Material \<times> world" where
  "shadedMaterial =
     setKeywords [''SHADING''] (newMaterial 0 ''void main () {}'')
       (freshContext True (\<lambda>v f. [''uTexture'']) 300 150 0 0)"

section \<open>Frame scheduler: the time step\<close>

lemma calcDeltaTime_bound: "fst (calcDeltaTime now s) \<le> 1 / 60"
  by (simp add: calcDeltaTime_def Let_def min_def)

lemma updateFrame_frameBody:
  "\<exists>dt s'. updateFrame env s = frameBody dt s'
       \<and> dt = fst (calcDeltaTime (envNow env) s) \<and> dt \<le> 1 / 60"
proof -
  obtain dt s1 where c: "calcDeltaTime (envNow env) s = (dt, s1)"
    by (cases "calcDeltaTime (envNow env) s")
  obtain rz s2 where r: "resizeCanvas env s1 = (rz, s2)"
    by (cases "resizeCanvas env s1")
  have "updateFrame env s = frameBody dt (if rz then initFramebuffers s2 else s2)"
    by (simp add: updateFrame_def c r)
  moreover have "dt \<le> 1 / 60"
    using calcDeltaTime_bound [of "envNow env" s] by (simp add: c)
  ultimately show ?thesis using c by auto
qed

text \<open>
  Claim C3. Whatever the clock reads and whatever the previous timestamp was, the dt
  that calcDeltaTime returns is at most 1/60 of a second; updateFrame runs the injector
  and the solver step (frameBody) with exactly this dt.
\<close>

theorem calcDeltaTime_at_most_60Hz:
  "fst (calcDeltaTime now s) \<le> 1 / 60
   \<and> (\<exists>dt s'. updateFrame env s = frameBody dt s'
          \<and> dt = fst (calcDeltaTime (envNow env) s) \<and> dt \<le> 1 / 60)"
  using calcDeltaTime_bound updateFrame_frameBody by blast

section \<open>Colour generation\<close>

lemma channel_bounds:
  fixes f :: real
  assumes "0 \<le> f" "f < 1"
  shows "12 / 100 \<le> 2 / 10 * (1 - (1 - f) * (4 / 10))"
    and "2 / 10 * (1 - (1 - f) * (4 / 10)) \<le> 2 / 10"
    and "12 / 100 \<le> 2 / 10 * (1 - f * (4 / 10))"
    and "2 / 10 * (1 - f * (4 / 10)) \<le> 2 / 10"
  using assms by (simp_all add: algebra_simps add_divide_distrib diff_divide_distrib)

text \<open>For a hue between 0.45 and 0.65 the switch of HSVtoRGB takes case 2 or case 3.\<close>

lemma HSVtoRGB_bluish:
  assumes "45 / 100 \<le> h" "h \<le> 65 / 100"
  shows "\<exists>c. HSVtoRGB h (4 / 10) (2 / 10) = Some c
           \<and> 12 / 100 \<le> rgb_r c \<and> rgb_r c \<le> 2 / 10
           \<and> 12 / 100 \<le> rgb_g c \<and> rgb_g c \<le> 2 / 10
           \<and> 12 / 100 \<le> rgb_b c \<and> rgb_b c \<le> 2 / 10"
proof -
  let ?i = "\<lfloor>h * 6\<rfloor>"
  have lo: "2 \<le> ?i" using assms by (simp add: le_floor_iff)
  have hi: "?i < 4" using assms by (simp add: floor_less_iff)
  let ?f = "h * 6 - real_of_int ?i"
  have f0: "0 \<le> ?f" by linarith
  have f1: "?f < 1" by linarith
  note tb = channel_bounds(1,2) [OF f0 f1]
  note qb = channel_bounds(3,4) [OF f0 f1]
  from lo hi consider "?i = 2" | "?i = 3" by linarith
  then show ?thesis
  proof cases
    case 1
    then have "jsRem ?i 6 = 2" by (simp add: jsRem_def)
    then have "HSVtoRGB h (4 / 10) (2 / 10) =
        Some (RGB (2 / 10 * (1 - 4 / 10)) (2 / 10) (2 / 10 * (1 - (1 - ?f) * (4 / 10))))"
      unfolding HSVtoRGB_def Let_def by simp
    then show ?thesis using tb by simp
  next
    case 2
    then have "jsRem ?i 6 = 3" by (simp add: jsRem_def)
    then have "HSVtoRGB h (4 / 10) (2 / 10) =
        Some (RGB (2 / 10 * (1 - 4 / 10)) (2 / 10 * (1 - ?f * (4 / 10))) (2 / 10))"
      unfolding HSVtoRGB_def Let_def by simp
    then show ?thesis using qb by simp
  qed
qed

lemma hue_bounds: "45 / 100 \<le> hue t \<and> hue t \<le> 65 / 100"
proof -
  have "- 1 \<le> sin (t * pi * 2)" "sin (t * pi * 2) \<le> 1" by simp_all
  then show ?thesis unfolding hue_def by linarith
qed

lemma hue_sector: "\<lfloor>hue t * 6\<rfloor> = 2 \<or> \<lfloor>hue t * 6\<rfloor> = 3"
proof -
  have "2 \<le> \<lfloor>hue t * 6\<rfloor>" using hue_bounds [of t] by (simp add: le_floor_iff)
  moreover have "\<lfloor>hue t * 6\<rfloor> < 4" using hue_bounds [of t] by (simp add: floor_less_iff)
  ultimately show ?thesis by linarith
qed

lemma generateColor_channels:
  "\<exists>c. fst (generateColor s) = Some c
       \<and> 0 \<le> rgb_r c \<and> rgb_r c \<le> 3 / 100
       \<and> 0 \<le> rgb_g c \<and> rgb_g c \<le> 3 / 100
       \<and> 0 \<le> rgb_b c \<and> rgb_b c \<le> 3 / 100"
proof -
  define ct0 where "ct0 = colorTimer s + 5 / 1000 * COLOR_UPDATE_SPEED (config s)"
  define ct where "ct = (if ct0 > 1 then ct0 - 1 else ct0)"
  have hb: "45 / 100 \<le> hue ct" "hue ct \<le> 65 / 100" using hue_bounds [of ct] by simp_all
  from HSVtoRGB_bluish [OF hb] obtain c where c: "HSVtoRGB (hue ct) (4 / 10) (2 / 10) = Some c"
    and b: "12 / 100 \<le> rgb_r c" "rgb_r c \<le> 2 / 10" "12 / 100 \<le> rgb_g c" "rgb_g c \<le> 2 / 10"
       "12 / 100 \<le> rgb_b c" "rgb_b c \<le> 2 / 10" by blast
  have "fst (generateColor s) =
          map_option (\<lambda>c. RGB (rgb_r c * (15 / 100)) (rgb_g c * (15 / 100)) (rgb_b c * (15 / 100)))
            (HSVtoRGB (hue ct) (4 / 10) (2 / 10))"
    unfolding generateColor_def Let_def ct_def ct0_def by (simp only: fst_conv)
  then have "fst (generateColor s) =
      Some (RGB (rgb_r c * (15 / 100)) (rgb_g c * (15 / 100)) (rgb_b c * (15 / 100)))"
    by (simp only: c option.map)
  then show ?thesis using b by simp
qed

text \<open>
  Claim C10. For every value of the colour timer the hue lies between 0.45 and 0.65, the
  floor of six times the hue is 2 or 3, and HSVtoRGB does not reach its default branch.
  So in every state generateColor returns a defined colour, and each of its channels lies
  between 0 and 0.03.
\<close>

theorem generateColor_defined:
  "(\<forall>t. 45 / 100 \<le> hue t \<and> hue t \<le> 65 / 100
        \<and> (\<lfloor>hue t * 6\<rfloor> = 2 \<or> \<lfloor>hue t * 6\<rfloor> = 3)
        \<and> HSVtoRGB (hue t) (4 / 10) (2 / 10) \<noteq> None)
   \<and> (\<exists>c. fst (generateColor s) = Some c
          \<and> 0 \<le> rgb_r c \<and> rgb_r c \<le> 3 / 100
          \<and> 0 \<le> rgb_g c \<and> rgb_g c \<le> 3 / 100
          \<and> 0 \<le> rgb_b c \<and> rgb_b c \<le> 3 / 100)"
proof -
  have "HSVtoRGB (hue t) (4 / 10) (2 / 10) \<noteq> None" for t
    using HSVtoRGB_bluish [of "hue t"] hue_bounds [of t] by auto
  then show ?thesis
    using hue_bounds hue_sector generateColor_channels [of s] by blast
qed

text \<open>
  Claim C9. generateColor is a function of the colour timer alone: two states of the
  component (whatever the capabilities of their contexts, and whatever the rest of their
  state) that agree on the colour timer yield the same colour and the same next timer.
\<close>

theorem generateColor_deterministic:
  assumes "colorTimer s1 = colorTimer s2"
    and "config s1 = downgradeConfig l1 CONFIG"
    and "config s2 = downgradeConfig l2 CONFIG"
  shows "fst (generateColor s1) = fst (generateColor s2)
       \<and> colorTimer (snd (generateColor s1)) = colorTimer (snd (generateColor s2))"
  using assms by (simp add: generateColor_def Let_def downgradeConfig_def CONFIG_def)

theorem generateColor_deterministic_witness:
  "colorTimer (freshContext True (\<lambda>v f. []) 300 150 (1 / 4) 0)
     = colorTimer (freshContext False (\<lambda>v f. [''x'']) 640 480 (1 / 4) 1000)
   \<and> config (freshContext True (\<lambda>v f. []) 300 150 (1 / 4) 0) = downgradeConfig True CONFIG
   \<and> config (freshContext False (\<lambda>v f. [''x'']) 640 480 (1 / 4) 1000)
       = downgradeConfig False CONFIG
   \<and> fst (generateColor (freshContext True (\<lambda>v f. []) 300 150 (1 / 4) 0))
       = fst (generateColor (freshContext False (\<lambda>v f. [''x'']) 640 480 (1 / 4) 1000))"
  using generateColor_deterministic [of "freshContext True (\<lambda>v f. []) 300 150 (1 / 4) 0"
          "freshContext False (\<lambda>v f. [''x'']) 640 480 (1 / 4) 1000" True False]
  by (simp add: freshContext_def)

section \<open>Render targets\<close>

lemma swapFBO_swapFBO: "swapFBO (swapFBO d) = d"
  by (simp add: swapFBO_def Let_def)

lemma swap_swap: "swap ref (swap ref s) = s"
  by (simp add: swap_def swapFBO_swapFBO)

text \<open>
  Claim C6. Two swaps of a double target restore the state, and with it what read and
  write return; one swap exchanges what read and write return, and leaves every texture,
  every framebuffer and the number of allocated objects as they were.
\<close>

theorem swap_twice_identity:
  "swap ref (swap ref s) = s
   \<and> read_FBO (doubleFBOs (swap ref s) ref) = write_FBO (doubleFBOs s ref)
   \<and> write_FBO (doubleFBOs (swap ref s) ref) = read_FBO (doubleFBOs s ref)
   \<and> read_FBO (doubleFBOs (swap ref (swap ref s)) ref) = read_FBO (doubleFBOs s ref)
   \<and> write_FBO (doubleFBOs (swap ref (swap ref s)) ref) = write_FBO (doubleFBOs s ref)
   \<and> glTextures (swap ref s) = glTextures s
   \<and> textureCount (swap ref s) = textureCount s
   \<and> glFramebuffers (swap ref s) = glFramebuffers s
   \<and> framebufferCount (swap ref s) = framebufferCount s
   \<and> doubleFBOCount (swap ref s) = doubleFBOCount s"
  by (simp add: swap_swap) (simp add: swap_def swapFBO_def read_FBO_def write_FBO_def Let_def)

lemma createFBO_fst:
  "fst (createFBO w h f fm ty p s) =
     \<lparr> width = w, height = h, texelSizeX = 1 / real w, texelSizeY = 1 / real h,
       texture = textureCount s, fbo = framebufferCount s \<rparr>"
  by (simp add: createFBO_def Let_def)

lemma createFBO_doubleFBOs: "doubleFBOs (snd (createFBO w h f fm ty p s)) = doubleFBOs s"
  by (simp add: createFBO_def Let_def)

lemma blit_doubleFBOs: "doubleFBOs (blit t ts fr s) = doubleFBOs s"
  by (simp add: blit_def Let_def)

lemma resizeFBO_fst: "fst (resizeFBO t w h f fm ty p s) = fst (createFBO w h f fm ty p s)"
  by (simp add: resizeFBO_def case_prod_beta)

lemma resizeFBO_doubleFBOs: "doubleFBOs (snd (resizeFBO t w h f fm ty p s)) = doubleFBOs s"
  by (simp add: resizeFBO_def case_prod_beta blit_doubleFBOs createFBO_doubleFBOs)

lemma createDoubleFBO_obj:
  "doubleFBOs (snd (createDoubleFBO w h f fm ty p s)) (fst (createDoubleFBO w h f fm ty p s)) =
     \<lparr> dwidth = w, dheight = h, dtexelSizeX = 1 / real w, dtexelSizeY = 1 / real h,
       fbo1 = fst (createFBO w h f fm ty p s),
       fbo2 = fst (createFBO w h f fm ty p (snd (createFBO w h f fm ty p s))) \<rparr>"
  by (simp add: createDoubleFBO_def Let_def case_prod_beta createFBO_fst)

lemma resizeDoubleFBO_obj:
  assumes "\<not> (dwidth (doubleFBOs s target) = w \<and> dheight (doubleFBOs s target) = h)"
  shows "doubleFBOs (snd (resizeDoubleFBO target w h f fm ty p s)) target =
     \<lparr> dwidth = w, dheight = h, dtexelSizeX = 1 / real w, dtexelSizeY = 1 / real h,
       fbo1 = fst (createFBO w h f fm ty p s),
       fbo2 = fst (createFBO w h f fm ty p
                (snd (resizeFBO (read_FBO (doubleFBOs s target)) w h f fm ty p s))) \<rparr>"
  unfolding resizeDoubleFBO_def if_not_P [OF assms]
  by (simp add: Let_def case_prod_beta resizeFBO_fst createFBO_doubleFBOs
      resizeFBO_doubleFBOs createFBO_fst)

lemma sampleWorld_obj:
  "doubleFBOs sampleWorld 0 =
     \<lparr> dwidth = 4, dheight = 2, dtexelSizeX = 1 / 4, dtexelSizeY = 1 / 2,
       fbo1 = \<lparr> width = 4, height = 2, texelSizeX = 1 / 4, texelSizeY = 1 / 2,
                texture = 0, fbo = 0 \<rparr>,
       fbo2 = \<lparr> width = 4, height = 2, texelSizeX = 1 / 4, texelSizeY = 1 / 2,
                texture = Suc 0, fbo = Suc 0 \<rparr> \<rparr>"
  "textureCount sampleWorld = 2"
  "framebufferCount sampleWorld = 2"
  by (simp_all add: sampleWorld_def createDoubleFBO_def createFBO_def Let_def freshContext_def)

text \<open>
  Claim C2. A target returned by createFBO or resizeFBO has texel sizes 1/width and
  1/height; so has a double target made by createDoubleFBO, in its own fields and in both
  members; resizeDoubleFBO and swap keep this true of a double target of which it is true.
\<close>

theorem texel_size_is_reciprocal:
  "texelSizeDerived (fst (createFBO w h f fm ty p s))
   \<and> texelSizeDerived (fst (resizeFBO t w h f fm ty p s))
   \<and> doubleTexelSizeDerived (doubleFBOs (snd (createDoubleFBO w h f fm ty p s))
         (fst (createDoubleFBO w h f fm ty p s)))
   \<and> (doubleTexelSizeDerived (doubleFBOs s target) \<longrightarrow>
        doubleTexelSizeDerived (doubleFBOs (snd (resizeDoubleFBO target w h f fm ty p s)) target))
   \<and> (doubleTexelSizeDerived (doubleFBOs s target) \<longrightarrow>
        doubleTexelSizeDerived (doubleFBOs (swap target s) target))"
proof -
  have a: "texelSizeDerived (fst (createFBO w h f fm ty p s'))" for s'
    by (simp add: createFBO_fst texelSizeDerived_def)
  have b: "texelSizeDerived (fst (resizeFBO t w h f fm ty p s))"
    by (simp add: resizeFBO_fst a)
  have c: "doubleTexelSizeDerived (doubleFBOs (snd (createDoubleFBO w h f fm ty p s))
         (fst (createDoubleFBO w h f fm ty p s)))"
    by (simp add: createDoubleFBO_obj doubleTexelSizeDerived_def read_FBO_def write_FBO_def a)
  have d: "doubleTexelSizeDerived (doubleFBOs (snd (resizeDoubleFBO target w h f fm ty p s)) target)"
    if "doubleTexelSizeDerived (doubleFBOs s target)"
  proof (cases "dwidth (doubleFBOs s target) = w \<and> dheight (doubleFBOs s target) = h")
    case True
    then show ?thesis using that by (simp add: resizeDoubleFBO_def)
  next
    case False
    show ?thesis
      by (simp add: resizeDoubleFBO_obj [OF False] doubleTexelSizeDerived_def read_FBO_def
          write_FBO_def a)
  qed
  have e: "doubleTexelSizeDerived (doubleFBOs (swap target s) target)"
    if "doubleTexelSizeDerived (doubleFBOs s target)"
    using that
    by (simp add: swap_def swapFBO_def Let_def doubleTexelSizeDerived_def read_FBO_def
        write_FBO_def texelSizeDerived_def)
  from a b c d e show ?thesis by blast
qed

theorem texel_size_is_reciprocal_witness:
  "doubleTexelSizeDerived (doubleFBOs sampleWorld 0)
   \<and> doubleTexelSizeDerived
        (doubleFBOs (snd (resizeDoubleFBO 0 8 4 RG16F 0 0 LINEAR sampleWorld)) 0)
   \<and> doubleTexelSizeDerived (doubleFBOs (swap 0 sampleWorld) 0)"
proof -
  have h: "doubleTexelSizeDerived (doubleFBOs sampleWorld 0)"
    by (simp add: sampleWorld_obj doubleTexelSizeDerived_def texelSizeDerived_def read_FBO_def
        write_FBO_def)
  then show ?thesis
    using texel_size_is_reciprocal [where s = sampleWorld and target = 0 and w = 8 and h = 4
        and f = RG16F and fm = 0 and ty = 0 and p = LINEAR]
    by blast
qed

lemma DoubleFBO_all_updates:
  "(d::DoubleFBO)\<lparr> fbo1 := a, fbo2 := b, dwidth := w, dheight := h,
                   dtexelSizeX := x, dtexelSizeY := y \<rparr> =
     \<lparr> dwidth = w, dheight = h, dtexelSizeX = x, dtexelSizeY = y, fbo1 = a, fbo2 = b \<rparr>"
  by (cases d) simp

lemma resizeDoubleFBO_same:
  "dwidth (doubleFBOs s target) = w \<and> dheight (doubleFBOs s target) = h \<Longrightarrow>
   resizeDoubleFBO target w h f fm ty p s = (target, s)"
  by (simp add: resizeDoubleFBO_def)

lemma resizeDoubleFBO_fst: "fst (resizeDoubleFBO target w h f fm ty p s) = target"
  by (simp add: resizeDoubleFBO_def Let_def case_prod_beta)

lemma resizeDoubleFBO_changed:
  assumes d: "\<not> (dwidth (doubleFBOs s target) = w \<and> dheight (doubleFBOs s target) = h)"
    and a: "texture (fbo1 (doubleFBOs s target)) < textureCount s"
  shows "snd (resizeDoubleFBO target w h f fm ty p s) =
     s\<lparr> glTextures := (glTextures s)
            (textureCount s := resizedRead s target w h f p,
             Suc (textureCount s) := clearedTexture w h f p),
        textureCount := Suc (Suc (textureCount s)),
        glFramebuffers := (glFramebuffers s)
            (framebufferCount s := textureCount s,
             Suc (framebufferCount s) := Suc (textureCount s)),
        framebufferCount := Suc (Suc (framebufferCount s)),
        doubleFBOs := (doubleFBOs s)(target :=
           \<lparr> dwidth = w, dheight = h, dtexelSizeX = 1 / real w, dtexelSizeY = 1 / real h,
             fbo1 = \<lparr> width = w, height = h, texelSizeX = 1 / real w, texelSizeY = 1 / real h,
                      texture = textureCount s, fbo = framebufferCount s \<rparr>,
             fbo2 = \<lparr> width = w, height = h, texelSizeX = 1 / real w, texelSizeY = 1 / real h,
                      texture = Suc (textureCount s), fbo = Suc (framebufferCount s) \<rparr> \<rparr>) \<rparr>"
proof -
  from a have ne: "texture (fbo1 (doubleFBOs s target)) \<noteq> textureCount s" by simp
  show ?thesis
    unfolding resizeDoubleFBO_def if_not_P [OF d]
    using ne
    by (simp add: Let_def case_prod_beta resizeFBO_def createFBO_def blit_def attach_def
        read_FBO_def copyShader_def baseVertexShader_def resizedRead_def clearedTexture_def
        fun_upd_twist DoubleFBO_all_updates cong: if_cong)
qed

text \<open>
  Claim C7. Called with the width and height the double target already has,
  resizeDoubleFBO returns the same reference and the state is unchanged: nothing is
  allocated and no object is touched. Called with another size, on a target whose read
  texture is an allocated one, it returns the same reference again; behind read there is
  a new target whose texture holds the texture that was behind read before the call (the
  one the handle in the object names in the texture store), resampled at the new size;
  behind write there is a newly created, cleared target; the cached width, height and
  texel sizes are the new ones; two textures and two framebuffers have been allocated and
  every other texture and object is as before.
\<close>

theorem resizeDoubleFBO_spec:
  "(dwidth (doubleFBOs s target) = w \<and> dheight (doubleFBOs s target) = h \<longrightarrow>
      resizeDoubleFBO target w h f fm ty p s = (target, s))
   \<and> (\<not> (dwidth (doubleFBOs s target) = w \<and> dheight (doubleFBOs s target) = h)
       \<and> texture (fbo1 (doubleFBOs s target)) < textureCount s \<longrightarrow>
      resizeDoubleFBO target w h f fm ty p s =
       (target,
        s\<lparr> glTextures := (glTextures s)
            (textureCount s := resizedRead s target w h f p,
             Suc (textureCount s) := clearedTexture w h f p),
        textureCount := Suc (Suc (textureCount s)),
        glFramebuffers := (glFramebuffers s)
            (framebufferCount s := textureCount s,
             Suc (framebufferCount s) := Suc (textureCount s)),
        framebufferCount := Suc (Suc (framebufferCount s)),
        doubleFBOs := (doubleFBOs s)(target :=
           \<lparr> dwidth = w, dheight = h, dtexelSizeX = 1 / real w, dtexelSizeY = 1 / real h,
             fbo1 = \<lparr> width = w, height = h, texelSizeX = 1 / real w, texelSizeY = 1 / real h,
                      texture = textureCount s, fbo = framebufferCount s \<rparr>,
             fbo2 = \<lparr> width = w, height = h, texelSizeX = 1 / real w, texelSizeY = 1 / real h,
                      texture = Suc (textureCount s), fbo = Suc (framebufferCount s) \<rparr> \<rparr>) \<rparr>))"
proof -
  have "resizeDoubleFBO target w h f fm ty p s =
          (fst (resizeDoubleFBO target w h f fm ty p s), snd (resizeDoubleFBO target w h f fm ty p s))"
    by simp
  then show ?thesis
    using resizeDoubleFBO_same [of s target w h f fm ty p]
      resizeDoubleFBO_changed [of s target w h f fm ty p]
      resizeDoubleFBO_fst [of target w h f fm ty p s]
    by metis
qed

lemma paintedWorld_facts:
  "doubleFBOs paintedWorld (Suc 0) =
     \<lparr> dwidth = 4, dheight = 2, dtexelSizeX = 1 / 4, dtexelSizeY = 1 / 2,
       fbo1 = \<lparr> width = 4, height = 2, texelSizeX = 1 / 4, texelSizeY = 1 / 2,
                texture = 3, fbo = 3 \<rparr>,
       fbo2 = \<lparr> width = 4, height = 2, texelSizeX = 1 / 4, texelSizeY = 1 / 2,
                texture = 2, fbo = 2 \<rparr> \<rparr>"
  "textureCount paintedWorld = 4"
  "framebufferCount paintedWorld = 4"
  "imgWidth (glTextures paintedWorld 3) = 4"
  "imgHeight (glTextures paintedWorld 3) = 2"
  "minMagFilter (glTextures paintedWorld 3) = NEAREST"
  "texels (glTextures paintedWorld 3) 2 1 = Vec4 (5 / 8) (3 / 4) 0 1"
  "texels (glTextures paintedWorld 0) 2 1 = Vec4 0 0 0 1"
  by (simp_all add: paintedWorld_def createDoubleFBO_def createFBO_def Let_def freshContext_def
      swap_def swapFBO_def blit_def write_FBO_def storeAs_def paintShader_def
      baseVertexShader_def eval_nat_numeral)

theorem resizeDoubleFBO_spec_witness:
  "dwidth (doubleFBOs paintedWorld 1) = 4 \<and> dheight (doubleFBOs paintedWorld 1) = 2
   \<and> resizeDoubleFBO 1 4 2 RG16F 0 0 NEAREST paintedWorld = (1, paintedWorld)
   \<and> \<not> (dwidth (doubleFBOs paintedWorld 1) = 8 \<and> dheight (doubleFBOs paintedWorld 1) = 4)
   \<and> texture (fbo1 (doubleFBOs paintedWorld 1)) < textureCount paintedWorld
   \<and> texture (fbo1 (doubleFBOs paintedWorld 1)) = 3
   \<and> texels (glTextures paintedWorld 3) 2 1 = Vec4 (5 / 8) (3 / 4) 0 1
   \<and> texels (glTextures paintedWorld 0) 2 1 = Vec4 0 0 0 1
   \<and> fst (resizeDoubleFBO 1 8 4 RG16F 0 0 NEAREST paintedWorld) = 1
   \<and> textureCount (snd (resizeDoubleFBO 1 8 4 RG16F 0 0 NEAREST paintedWorld)) = 6
   \<and> texture (read_FBO (doubleFBOs (snd (resizeDoubleFBO 1 8 4 RG16F 0 0 NEAREST paintedWorld)) 1)) = 4
   \<and> texture (write_FBO (doubleFBOs (snd (resizeDoubleFBO 1 8 4 RG16F 0 0 NEAREST paintedWorld)) 1)) = 5
   \<and> texels (glTextures (snd (resizeDoubleFBO 1 8 4 RG16F 0 0 NEAREST paintedWorld)) 4) 5 3
        = Vec4 (5 / 8) (3 / 4) 0 1
   \<and> texels (glTextures (snd (resizeDoubleFBO 1 8 4 RG16F 0 0 NEAREST paintedWorld)) 5) 5 3
        = Vec4 0 0 0 1
   \<and> texels (glTextures (snd (resizeDoubleFBO 1 8 4 RG16F 0 0 NEAREST paintedWorld)) 3) 2 1
        = Vec4 (5 / 8) (3 / 4) 0 1
   \<and> dwidth (doubleFBOs (snd (resizeDoubleFBO 1 8 4 RG16F 0 0 NEAREST paintedWorld)) 1) = 8
   \<and> dheight (doubleFBOs (snd (resizeDoubleFBO 1 8 4 RG16F 0 0 NEAREST paintedWorld)) 1) = 4
   \<and> dtexelSizeX (doubleFBOs (snd (resizeDoubleFBO 1 8 4 RG16F 0 0 NEAREST paintedWorld)) 1) = 1 / 8
   \<and> dtexelSizeY (doubleFBOs (snd (resizeDoubleFBO 1 8 4 RG16F 0 0 NEAREST paintedWorld)) 1) = 1 / 4"
proof -
  have h1: "dwidth (doubleFBOs paintedWorld 1) = 4 \<and> dheight (doubleFBOs paintedWorld 1) = 2"
    by (simp add: paintedWorld_facts)
  have h2: "\<not> (dwidth (doubleFBOs paintedWorld 1) = 8 \<and> dheight (doubleFBOs paintedWorld 1) = 4)
      \<and> texture (fbo1 (doubleFBOs paintedWorld 1)) < textureCount paintedWorld"
    by (simp add: paintedWorld_facts)
  from h1 resizeDoubleFBO_spec [of paintedWorld 1 4 2 RG16F 0 0 NEAREST]
  have a: "resizeDoubleFBO 1 4 2 RG16F 0 0 NEAREST paintedWorld = (1, paintedWorld)" by blast
  from h2 resizeDoubleFBO_spec [of paintedWorld 1 8 4 RG16F 0 0 NEAREST]
  have b: "resizeDoubleFBO 1 8 4 RG16F 0 0 NEAREST paintedWorld =
       (1,
        paintedWorld\<lparr> glTextures := (glTextures paintedWorld)
            (textureCount paintedWorld := resizedRead paintedWorld 1 8 4 RG16F NEAREST,
             Suc (textureCount paintedWorld) := clearedTexture 8 4 RG16F NEAREST),
        textureCount := Suc (Suc (textureCount paintedWorld)),
        glFramebuffers := (glFramebuffers paintedWorld)
            (framebufferCount paintedWorld := textureCount paintedWorld,
             Suc (framebufferCount paintedWorld) := Suc (textureCount paintedWorld)),
        framebufferCount := Suc (Suc (framebufferCount paintedWorld)),
        doubleFBOs := (doubleFBOs paintedWorld)(1 :=
           \<lparr> dwidth = 8, dheight = 4, dtexelSizeX = 1 / real (8::nat), dtexelSizeY = 1 / real (4::nat),
             fbo1 = \<lparr> width = 8, height = 4, texelSizeX = 1 / real (8::nat), texelSizeY = 1 / real (4::nat),
                      texture = textureCount paintedWorld, fbo = framebufferCount paintedWorld \<rparr>,
             fbo2 = \<lparr> width = 8, height = 4, texelSizeX = 1 / real (8::nat), texelSizeY = 1 / real (4::nat),
                      texture = Suc (textureCount paintedWorld), fbo = Suc (framebufferCount paintedWorld) \<rparr> \<rparr>) \<rparr>)"
    by blast
  have c: "texels (resizedRead paintedWorld 1 8 4 RG16F NEAREST) 5 3 = Vec4 (5 / 8) (3 / 4) 0 1"
    by (simp add: resizedRead_def paintedWorld_facts texture2D_def clampedTexel_def storeAs_def)
  show ?thesis
    unfolding b
    using h1 h2 a c
    by (simp add: read_FBO_def write_FBO_def paintedWorld_facts clearedTexture_def)
qed


section \<open>Shader program cache: properties\<close>

lemma setKeywords_cached_active:
  "programs m (keywordsHash ks) = Some pr \<Longrightarrow> activeProgram m = Some pr \<Longrightarrow>
   setKeywords ks m s = (m, s)"
  by (simp add: setKeywords_def Let_def)

lemma setKeywords_cached:
  "programs m (keywordsHash ks) = Some pr \<Longrightarrow>
   snd (setKeywords ks m s) = s \<and> programs (fst (setKeywords ks m s)) = programs m"
  by (simp add: setKeywords_def Let_def)

lemma setKeywords_post:
  "\<exists>pr. programs (fst (setKeywords ks m s)) (keywordsHash ks) = Some pr
      \<and> activeProgram (fst (setKeywords ks m s)) = Some pr"
  by (cases "programs m (keywordsHash ks)")
     (simp_all add: setKeywords_def Let_def case_prod_beta)

lemma setKeywords_idem:
  "setKeywords ks (fst (setKeywords ks m s)) (snd (setKeywords ks m s)) = setKeywords ks m s"
proof -
  obtain pr where "programs (fst (setKeywords ks m s)) (keywordsHash ks) = Some pr"
    "activeProgram (fst (setKeywords ks m s)) = Some pr"
    using setKeywords_post by blast
  then show ?thesis by (simp add: setKeywords_cached_active)
qed

text \<open>
  Claim C8. The cache slot of setKeywords is keywordsHash of the keyword list, a function
  of the strings of the list only. After a call, the program for the list is cached and
  active, and a second call with the same list changes neither the material nor the
  context. In general, when the program for the list is cached nothing is compiled or
  linked and the cache is unchanged; when it is also the active program, the material
  (its uniform table included) and the context are returned as they were.
\<close>

theorem setKeywords_cache:
  "setKeywords ks (fst (setKeywords ks m s)) (snd (setKeywords ks m s)) = setKeywords ks m s
   \<and> programs (fst (setKeywords ks m s)) (keywordsHash ks) = activeProgram (fst (setKeywords ks m s))
   \<and> activeProgram (fst (setKeywords ks m s)) \<noteq> None
   \<and> (programs m (keywordsHash ks) = Some pr \<longrightarrow>
         snd (setKeywords ks m s) = s \<and> programs (fst (setKeywords ks m s)) = programs m)
   \<and> (programs m (keywordsHash ks) = Some pr \<and> activeProgram m = Some pr \<longrightarrow>
         setKeywords ks m s = (m, s))"
  using setKeywords_idem [of ks m s] setKeywords_post [of ks m s] setKeywords_cached [of m ks pr s]
    setKeywords_cached_active [of m ks pr s]
  by auto

lemma shaded_facts:
  "programs (fst shadedMaterial) (keywordsHash [''SHADING'']) = Some 0"
  "activeProgram (fst shadedMaterial) = Some 0"
  "programCount (snd shadedMaterial) = 1"
  "shaderCount (snd shadedMaterial) = 1"
  by (simp_all add: shadedMaterial_def setKeywords_def Let_def case_prod_beta newMaterial_def
      compileShader_def createProgram_def freshContext_def)

theorem setKeywords_cache_witness:
  "programs (fst shadedMaterial) (keywordsHash [''SHADING'']) = Some 0
   \<and> activeProgram (fst shadedMaterial) = Some 0
   \<and> setKeywords [''SHADING''] (fst shadedMaterial) (snd shadedMaterial) = shadedMaterial
   \<and> programCount (snd (setKeywords [''SHADING''] (fst shadedMaterial) (snd shadedMaterial))) = 1
   \<and> shaderCount (snd (setKeywords [''SHADING''] (fst shadedMaterial) (snd shadedMaterial))) = 1"
  using setKeywords_cache [of "[''SHADING'']" "fst shadedMaterial" "snd shadedMaterial" 0]
    shaded_facts
  by simp

section \<open>A step on zero fields\<close>

lemma mix_zero:
  "vx a = 0 \<Longrightarrow> vx b = 0 \<Longrightarrow> vx (mix a b k) = 0"
  "vy a = 0 \<Longrightarrow> vy b = 0 \<Longrightarrow> vy (mix a b k) = 0"
  by (simp_all add: mix_def add4_def smul4_def)

lemma clampedTexel_zero: "zeroXY t \<Longrightarrow> vx (clampedTexel t i j) = 0 \<and> vy (clampedTexel t i j) = 0"
  by (simp add: zeroXY_def clampedTexel_def)

lemma texture2D_zero:
  assumes "zeroXY t"
  shows "vx (texture2D t uv) = 0" and "vy (texture2D t uv) = 0"
  using clampedTexel_zero [OF assms]
  by (simp_all add: texture2D_def Let_def mix_zero split: filterMode.split)

lemma bilerp_zero:
  assumes "zeroXY t"
  shows "vx (bilerp t uv ts) = 0" and "vy (bilerp t uv ts) = 0"
  by (simp_all add: bilerp_def Let_def mix_zero texture2D_zero [OF assms])

lemma curlShader_zero: "zeroXY u \<Longrightarrow> vx (curlShader u v) = 0 \<and> vy (curlShader u v) = 0"
  by (simp add: curlShader_def Let_def texture2D_zero)

lemma vorticityShader_zero:
  "zeroXY u \<Longrightarrow> zeroXY c \<Longrightarrow>
   vx (vorticityShader u c k dt v) = 0 \<and> vy (vorticityShader u c k dt v) = 0"
  by (simp add: vorticityShader_def vorticityGradient_def Let_def texture2D_zero)

lemma divergenceShader_zero:
  "zeroXY u \<Longrightarrow> vx (divergenceShader u v) = 0 \<and> vy (divergenceShader u v) = 0"
  by (simp add: divergenceShader_def Let_def texture2D_zero)

lemma clearShader_zero:
  "zeroXY u \<Longrightarrow> vx (clearShader u k v) = 0 \<and> vy (clearShader u k v) = 0"
  by (simp add: clearShader_def smul4_def texture2D_zero)

lemma pressureShader_zero:
  "zeroXY u \<Longrightarrow> zeroXY d \<Longrightarrow> vx (pressureShader u d v) = 0 \<and> vy (pressureShader u d v) = 0"
  by (simp add: pressureShader_def Let_def texture2D_zero)

lemma gradientSubtractShader_zero:
  "zeroXY u \<Longrightarrow> zeroXY w \<Longrightarrow>
   vx (gradientSubtractShader u w v) = 0 \<and> vy (gradientSubtractShader u w v) = 0"
  by (simp add: gradientSubtractShader_def Let_def texture2D_zero)

lemma advectionShader_zero:
  "zeroXY src \<Longrightarrow>
   vx (advectionShader m u src ts dts dt k v) = 0 \<and> vy (advectionShader m u src ts dts dt k v) = 0"
  by (simp add: advectionShader_def Let_def texture2D_zero bilerp_zero)

lemma copyShader_zero: "zeroXY u \<Longrightarrow> vx (copyShader u v) = 0 \<and> vy (copyShader u v) = 0"
  by (simp add: copyShader_def texture2D_zero)

lemma storeAs_zero: "vx c = 0 \<Longrightarrow> vy c = 0 \<Longrightarrow> vx (storeAs f c) = 0 \<and> vy (storeAs f c) = 0"
  by (cases f) (simp_all add: storeAs_def)

lemma allZero_tex: "allZero s \<Longrightarrow> zeroXY (glTextures s h)"
  by (simp add: allZero_def)

lemma allZero_attach: "allZero s \<Longrightarrow> zeroXY (attach f s)"
  by (simp add: allZero_def attach_def)

lemma allZero_blit:
  assumes "allZero s" and "\<And>v. vx (frag v) = 0 \<and> vy (frag v) = 0"
  shows "allZero (blit t ts frag s)"
  using assms storeAs_zero
  by (simp add: allZero_def zeroXY_def blit_def Let_def)

lemma allZero_swap: "allZero (swap r s) = allZero s"
  by (simp add: allZero_def swap_def)

lemma allZero_createFBO: "allZero s \<Longrightarrow> allZero (snd (createFBO w h f fm ty p s))"
  by (simp add: allZero_def zeroXY_def createFBO_def Let_def)

lemma allZero_createDoubleFBO: "allZero s \<Longrightarrow> allZero (snd (createDoubleFBO w h f fm ty p s))"
  using allZero_createFBO [of "snd (createFBO w h f fm ty p s)" w h f fm ty p]
    allZero_createFBO [of s w h f fm ty p]
  by (simp add: createDoubleFBO_def Let_def case_prod_beta allZero_def)

lemma allZero_doubleFBOs_update: "allZero (s\<lparr> doubleFBOs := x \<rparr>) = allZero s"
  by (simp add: allZero_def)

lemma allZero_resizeFBO: "allZero s \<Longrightarrow> allZero (snd (resizeFBO t w h f fm ty p s))"
  by (simp add: resizeFBO_def case_prod_beta allZero_blit allZero_createFBO copyShader_zero
      allZero_attach)

lemma allZero_resizeDoubleFBO:
  "allZero s \<Longrightarrow> allZero (snd (resizeDoubleFBO t w h f fm ty p s))"
  by (simp add: resizeDoubleFBO_def Let_def case_prod_beta allZero_doubleFBOs_update
      allZero_createFBO allZero_resizeFBO)

lemma allZero_var_update:
  "allZero (s\<lparr> dye := a \<rparr>) = allZero s"
  "allZero (s\<lparr> velocity := a \<rparr>) = allZero s"
  "allZero (s\<lparr> pressure := a \<rparr>) = allZero s"
  "allZero (s\<lparr> divergence := b \<rparr>) = allZero s"
  "allZero (s\<lparr> curl := b \<rparr>) = allZero s"
  "allZero (s\<lparr> displayMaterial := m \<rparr>) = allZero s"
  by (simp_all add: allZero_def)

lemma allZero_initFramebuffers: "allZero s \<Longrightarrow> allZero (initFramebuffers s)"
  by (simp add: initFramebuffers_def Let_def case_prod_beta allZero_var_update
      allZero_createFBO allZero_createDoubleFBO allZero_resizeDoubleFBO split: option.split)

lemma allZero_curlPass: "allZero s \<Longrightarrow> allZero (curlPass v c s)"
  by (simp add: curlPass_def allZero_blit curlShader_zero allZero_attach)

lemma allZero_vorticityPass: "allZero s \<Longrightarrow> allZero (vorticityPass dt v c s)"
  by (simp add: vorticityPass_def allZero_swap allZero_blit vorticityShader_zero allZero_attach)

lemma allZero_divergencePass: "allZero s \<Longrightarrow> allZero (divergencePass v dv s)"
  by (simp add: divergencePass_def allZero_blit divergenceShader_zero allZero_attach)

lemma allZero_pressureDecayPass: "allZero s \<Longrightarrow> allZero (pressureDecayPass p s)"
  by (simp add: pressureDecayPass_def allZero_swap allZero_blit clearShader_zero allZero_attach)

lemma allZero_pressureIteration: "allZero s \<Longrightarrow> allZero (pressureIteration v p dv s)"
  by (simp add: pressureIteration_def allZero_swap allZero_blit pressureShader_zero allZero_attach)

lemma allZero_pressureIterations:
  "allZero s \<Longrightarrow> allZero ((pressureIteration v p dv ^^ n) s)"
  by (induction n) (simp_all add: allZero_pressureIteration)

lemma allZero_gradientSubtractPass: "allZero s \<Longrightarrow> allZero (gradientSubtractPass v p s)"
  by (simp add: gradientSubtractPass_def allZero_swap allZero_blit gradientSubtractShader_zero
      allZero_attach)

lemma allZero_advectVelocityPass: "allZero s \<Longrightarrow> allZero (advectVelocityPass dt v s)"
  by (simp add: advectVelocityPass_def allZero_swap allZero_blit advectionShader_zero
      allZero_attach)

lemma allZero_advectDyePass: "allZero s \<Longrightarrow> allZero (advectDyePass dt v d s)"
  by (simp add: advectDyePass_def allZero_swap allZero_blit advectionShader_zero allZero_attach)

lemma allZero_stepPasses: "allZero s \<Longrightarrow> allZero (stepPasses dt v p d c dv s)"
  by (simp add: stepPasses_def Let_def allZero_curlPass allZero_vorticityPass
      allZero_divergencePass allZero_pressureDecayPass allZero_pressureIterations
      allZero_gradientSubtractPass allZero_advectVelocityPass allZero_advectDyePass)

lemma sameVars_refl: "sameVars s s"
  by (simp add: sameVars_def)

lemma sameVars_trans [trans]: "sameVars a b \<Longrightarrow> sameVars b c \<Longrightarrow> sameVars a c"
  by (simp add: sameVars_def)

lemma sameVars_blit: "sameVars s (blit t ts fr s)"
  by (simp add: sameVars_def blit_def Let_def)

lemma sameVars_swap: "sameVars s (swap r s)"
  by (simp add: sameVars_def swap_def)

lemma sameVars_swap_blit: "sameVars s (swap r (blit t ts fr s))"
  using sameVars_trans [OF sameVars_blit sameVars_swap] .

lemma sameVars_pressureIterations: "sameVars s ((pressureIteration v p dv ^^ n) s)"
proof (induction n)
  case 0
  show ?case by (simp add: sameVars_refl)
next
  case (Suc n)
  have "sameVars ((pressureIteration v p dv ^^ n) s)
          (pressureIteration v p dv ((pressureIteration v p dv ^^ n) s))"
    unfolding pressureIteration_def by (rule sameVars_swap_blit)
  with Suc show ?case by (auto intro: sameVars_trans)
qed

lemma sameVars_passes:
  "sameVars s (curlPass v c s)"
  "sameVars s (vorticityPass dt v c s)"
  "sameVars s (divergencePass v dv s)"
  "sameVars s (pressureDecayPass p s)"
  "sameVars s (gradientSubtractPass v p s)"
  "sameVars s (advectVelocityPass dt v s)"
  "sameVars s (advectDyePass dt v d s)"
  unfolding curlPass_def vorticityPass_def divergencePass_def
    pressureDecayPass_def gradientSubtractPass_def advectVelocityPass_def advectDyePass_def
  by (rule sameVars_blit sameVars_swap_blit)+

lemma sameVars_stepPasses: "sameVars s (stepPasses dt v p d c dv s)"
proof -
  define s1 where "s1 = curlPass v c s"
  define s2 where "s2 = vorticityPass dt v c s1"
  define s3 where "s3 = divergencePass v dv s2"
  define s4 where "s4 = pressureDecayPass p s3"
  define s5 where "s5 = (pressureIteration v p dv ^^ PRESSURE_ITERATIONS (config s4)) s4"
  define s6 where "s6 = gradientSubtractPass v p s5"
  define s7 where "s7 = advectVelocityPass dt v s6"
  have e: "stepPasses dt v p d c dv s = advectDyePass dt v d s7"
    by (simp add: stepPasses_def Let_def s1_def s2_def s3_def s4_def s5_def s6_def s7_def)
  have "sameVars s s1" unfolding s1_def by (rule sameVars_passes)
  also have "sameVars s1 s2" unfolding s2_def by (rule sameVars_passes)
  also have "sameVars s2 s3" unfolding s3_def by (rule sameVars_passes)
  also have "sameVars s3 s4" unfolding s4_def by (rule sameVars_passes)
  also have "sameVars s4 s5" unfolding s5_def by (rule sameVars_pressureIterations)
  also have "sameVars s5 s6" unfolding s6_def by (rule sameVars_passes)
  also have "sameVars s6 s7" unfolding s7_def by (rule sameVars_passes)
  also have "sameVars s7 (advectDyePass dt v d s7)" by (rule sameVars_passes)
  finally show ?thesis by (simp add: e sameVars_trans)
qed

lemma allZero_freshContext: "allZero (freshContext lin au cw ch rnd now)"
  by (simp add: allZero_def zeroXY_def freshContext_def noTexture_def)

lemma glTextures_setKeywords: "glTextures (snd (setKeywords ks m s)) = glTextures s"
  by (simp add: setKeywords_def Let_def case_prod_beta compileShader_def createProgram_def
      split: option.split)

lemma allZero_updateKeywords: "allZero (updateKeywords s) = allZero s"
  by (simp add: updateKeywords_def case_prod_beta allZero_def glTextures_setKeywords)

lemma allZero_compileShader: "allZero (snd (compileShader ty src ks s)) = allZero s"
  by (simp add: compileShader_def Let_def allZero_def)

lemma allZero_mountEffect: "allZero (mountEffect lin au cw ch vsrc dsrc rnd now)"
  by (simp add: mountEffect_def Let_def case_prod_beta allZero_initFramebuffers
      allZero_updateKeywords allZero_var_update allZero_compileShader allZero_freshContext)

lemma blit_frame:
  shows "config (blit t ts fr s) = config s"
    and "dye (blit t ts fr s) = dye s"
    and "velocity (blit t ts fr s) = velocity s"
    and "pressure (blit t ts fr s) = pressure s"
    and "curl (blit t ts fr s) = curl s"
    and "divergence (blit t ts fr s) = divergence s"
    and "displayMaterial (blit t ts fr s) = displayMaterial s"
    and "glShaders (blit t ts fr s) = glShaders s"
    and "glPrograms (blit t ts fr s) = glPrograms s"
  by (simp_all add: blit_def Let_def)

lemma createFBO_frame:
  shows "config (snd (createFBO w h f fm ty p s)) = config s"
    and "dye (snd (createFBO w h f fm ty p s)) = dye s"
    and "velocity (snd (createFBO w h f fm ty p s)) = velocity s"
    and "pressure (snd (createFBO w h f fm ty p s)) = pressure s"
    and "curl (snd (createFBO w h f fm ty p s)) = curl s"
    and "divergence (snd (createFBO w h f fm ty p s)) = divergence s"
    and "displayMaterial (snd (createFBO w h f fm ty p s)) = displayMaterial s"
    and "glShaders (snd (createFBO w h f fm ty p s)) = glShaders s"
    and "glPrograms (snd (createFBO w h f fm ty p s)) = glPrograms s"
  by (simp_all add: createFBO_def Let_def)

lemma createDoubleFBO_frame:
  shows "config (snd (createDoubleFBO w h f fm ty p s)) = config s"
    and "dye (snd (createDoubleFBO w h f fm ty p s)) = dye s"
    and "velocity (snd (createDoubleFBO w h f fm ty p s)) = velocity s"
    and "pressure (snd (createDoubleFBO w h f fm ty p s)) = pressure s"
    and "curl (snd (createDoubleFBO w h f fm ty p s)) = curl s"
    and "divergence (snd (createDoubleFBO w h f fm ty p s)) = divergence s"
    and "displayMaterial (snd (createDoubleFBO w h f fm ty p s)) = displayMaterial s"
    and "glShaders (snd (createDoubleFBO w h f fm ty p s)) = glShaders s"
    and "glPrograms (snd (createDoubleFBO w h f fm ty p s)) = glPrograms s"
  by (simp_all add: createDoubleFBO_def Let_def case_prod_beta createFBO_frame)

lemma resizeFBO_frame:
  shows "config (snd (resizeFBO t w h f fm ty p s)) = config s"
    and "dye (snd (resizeFBO t w h f fm ty p s)) = dye s"
    and "velocity (snd (resizeFBO t w h f fm ty p s)) = velocity s"
    and "pressure (snd (resizeFBO t w h f fm ty p s)) = pressure s"
    and "curl (snd (resizeFBO t w h f fm ty p s)) = curl s"
    and "divergence (snd (resizeFBO t w h f fm ty p s)) = divergence s"
    and "displayMaterial (snd (resizeFBO t w h f fm ty p s)) = displayMaterial s"
    and "glShaders (snd (resizeFBO t w h f fm ty p s)) = glShaders s"
    and "glPrograms (snd (resizeFBO t w h f fm ty p s)) = glPrograms s"
  by (simp_all add: resizeFBO_def case_prod_beta blit_frame createFBO_frame)

lemma resizeDoubleFBO_frame:
  shows "config (snd (resizeDoubleFBO t w h f fm ty p s)) = config s"
    and "dye (snd (resizeDoubleFBO t w h f fm ty p s)) = dye s"
    and "velocity (snd (resizeDoubleFBO t w h f fm ty p s)) = velocity s"
    and "pressure (snd (resizeDoubleFBO t w h f fm ty p s)) = pressure s"
    and "curl (snd (resizeDoubleFBO t w h f fm ty p s)) = curl s"
    and "divergence (snd (resizeDoubleFBO t w h f fm ty p s)) = divergence s"
    and "displayMaterial (snd (resizeDoubleFBO t w h f fm ty p s)) = displayMaterial s"
    and "glShaders (snd (resizeDoubleFBO t w h f fm ty p s)) = glShaders s"
    and "glPrograms (snd (resizeDoubleFBO t w h f fm ty p s)) = glPrograms s"
  by (simp_all add: resizeDoubleFBO_def Let_def case_prod_beta resizeFBO_frame createFBO_frame)

lemma createOrResize_frame:
  shows "config (snd (case x of None \<Rightarrow> createDoubleFBO w h f fm ty p s | Some r \<Rightarrow> resizeDoubleFBO r w h f fm ty p s)) = config s"
    and "dye (snd (case x of None \<Rightarrow> createDoubleFBO w h f fm ty p s | Some r \<Rightarrow> resizeDoubleFBO r w h f fm ty p s)) = dye s"
    and "velocity (snd (case x of None \<Rightarrow> createDoubleFBO w h f fm ty p s | Some r \<Rightarrow> resizeDoubleFBO r w h f fm ty p s)) = velocity s"
    and "pressure (snd (case x of None \<Rightarrow> createDoubleFBO w h f fm ty p s | Some r \<Rightarrow> resizeDoubleFBO r w h f fm ty p s)) = pressure s"
    and "curl (snd (case x of None \<Rightarrow> createDoubleFBO w h f fm ty p s | Some r \<Rightarrow> resizeDoubleFBO r w h f fm ty p s)) = curl s"
    and "divergence (snd (case x of None \<Rightarrow> createDoubleFBO w h f fm ty p s | Some r \<Rightarrow> resizeDoubleFBO r w h f fm ty p s)) = divergence s"
    and "displayMaterial (snd (case x of None \<Rightarrow> createDoubleFBO w h f fm ty p s | Some r \<Rightarrow> resizeDoubleFBO r w h f fm ty p s)) = displayMaterial s"
    and "glShaders (snd (case x of None \<Rightarrow> createDoubleFBO w h f fm ty p s | Some r \<Rightarrow> resizeDoubleFBO r w h f fm ty p s)) = glShaders s"
    and "glPrograms (snd (case x of None \<Rightarrow> createDoubleFBO w h f fm ty p s | Some r \<Rightarrow> resizeDoubleFBO r w h f fm ty p s)) = glPrograms s"
  by (simp_all add: createDoubleFBO_frame resizeDoubleFBO_frame split: option.split)

lemmas target_frames = createFBO_frame createDoubleFBO_frame resizeFBO_frame
  resizeDoubleFBO_frame createOrResize_frame

lemma initFramebuffers_vars:
  "\<exists>v p d c dv. velocity (initFramebuffers s) = Some v \<and> pressure (initFramebuffers s) = Some p
     \<and> dye (initFramebuffers s) = Some d \<and> curl (initFramebuffers s) = Some c
     \<and> divergence (initFramebuffers s) = Some dv"
  by (simp add: initFramebuffers_def Let_def case_prod_beta target_frames)

lemma initFramebuffers_frame:
  "config (initFramebuffers s) = config s"
  "displayMaterial (initFramebuffers s) = displayMaterial s"
  "glShaders (initFramebuffers s) = glShaders s"
  "glPrograms (initFramebuffers s) = glPrograms s"
  by (simp_all add: initFramebuffers_def Let_def case_prod_beta target_frames)

lemma setKeywords_frame:
  shows "config (snd (setKeywords ks m s)) = config s"
    and "glTextures (snd (setKeywords ks m s)) = glTextures s"
  by (simp_all add: setKeywords_def Let_def case_prod_beta compileShader_def createProgram_def split: option.split)

lemma updateKeywords_frame:
  shows "config (updateKeywords s) = config s"
    and "glTextures (updateKeywords s) = glTextures s"
  by (simp_all add: updateKeywords_def case_prod_beta setKeywords_frame)

lemma config_mountEffect:
  "config (mountEffect lin au cw ch vsrc dsrc rnd now) = downgradeConfig lin CONFIG"
  by (simp add: mountEffect_def Let_def case_prod_beta initFramebuffers_frame
      updateKeywords_frame compileShader_def freshContext_def)

lemma step_zero:
  assumes "allZero s"
    and "velocity s = Some v" "pressure s = Some p" "dye s = Some d" "curl s = Some c"
        "divergence s = Some dv"
  shows "\<exists>s'. step dt s = Inr s' \<and> allZero s' \<and> curl s' = Some c \<and> divergence s' = Some dv
           \<and> pressure s' = Some p"
proof -
  have "step dt s = Inr (stepPasses dt v p d c dv s)"
    using assms by (simp add: step_def)
  moreover have "allZero (stepPasses dt v p d c dv s)"
    using assms(1) by (rule allZero_stepPasses)
  moreover have "sameVars s (stepPasses dt v p d c dv s)"
    by (rule sameVars_stepPasses)
  ultimately show ?thesis using assms by (simp add: sameVars_def)
qed

text \<open>
  Claim C1. After mounting with linear filtering supported (so SIM_RESOLUTION is 128 and
  DYE_RESOLUTION is 1440) on a canvas of positive size, with no splat injected, one step
  with dt = 0.0166 succeeds, and afterwards every texel of the curl target, of the
  divergence target and of both pressure targets holds the value zero. The canvas is taken
  to have positive width and height: for an empty canvas the aspect ratio of
  getResolution is not a number.
\<close>

theorem zero_fields:
  assumes "0 < cw" and "0 < ch"
  shows "\<exists>s' c dv p.
           step (166 / 10000) (mountEffect True au cw ch vsrc dsrc rnd now) = Inr s'
         \<and> SIM_RESOLUTION (config (mountEffect True au cw ch vsrc dsrc rnd now)) = 128
         \<and> DYE_RESOLUTION (config (mountEffect True au cw ch vsrc dsrc rnd now)) = 1440
         \<and> curl s' = Some c \<and> divergence s' = Some dv \<and> pressure s' = Some p
         \<and> (\<forall>i j. vx (texels (attach c s') i j) = 0
                \<and> vx (texels (attach dv s') i j) = 0
                \<and> vx (texels (attach (read_FBO (doubleFBOs s' p)) s') i j) = 0
                \<and> vx (texels (attach (write_FBO (doubleFBOs s' p)) s') i j) = 0)"
proof -
  let ?s = "mountEffect True au cw ch vsrc dsrc rnd now"
  have z: "allZero ?s" by (rule allZero_mountEffect)
  obtain v p d c dv where vars: "velocity ?s = Some v" "pressure ?s = Some p" "dye ?s = Some d"
      "curl ?s = Some c" "divergence ?s = Some dv"
    unfolding mountEffect_def Let_def case_prod_beta using initFramebuffers_vars by blast
  from step_zero [OF z vars] obtain s' where s': "step (166 / 10000) ?s = Inr s'" "allZero s'"
      "curl s' = Some c" "divergence s' = Some dv" "pressure s' = Some p" by blast
  have t: "vx (texels (attach f s') i j) = 0" for f i j
    using allZero_attach [OF s'(2), of f] by (simp add: zeroXY_def)
  have cfg: "SIM_RESOLUTION (config ?s) = 128" "DYE_RESOLUTION (config ?s) = 1440"
    by (simp_all add: config_mountEffect downgradeConfig_def CONFIG_def)
  show ?thesis using s' t cfg by blast
qed

theorem zero_fields_witness:
  "(0::nat) < 300 \<and> (0::nat) < 150 \<and>
   (\<exists>s' c dv p.
           step (166 / 10000) (mountEffect True (\<lambda>v f. []) 300 150 [] [] 0 0) = Inr s'
         \<and> curl s' = Some c \<and> divergence s' = Some dv \<and> pressure s' = Some p
         \<and> vx (texels (attach c s') 0 0) = 0
         \<and> vx (texels (attach dv s') 0 0) = 0
         \<and> vx (texels (attach (read_FBO (doubleFBOs s' p)) s') 0 0) = 0)"
proof -
  have h: "(0::nat) < 300" "(0::nat) < 150" by simp_all
  from zero_fields [OF h, of "\<lambda>v f. []" "[]" "[]" 0 0] show ?thesis
    using h by blast
qed

section \<open>Capability downgrade\<close>

lemma mountEffect_material:
  "displayMaterial (mountEffect lin au cw ch vsrc dsrc rnd now) =
     \<lparr> vertexShader = 0, fragmentShaderSource = dsrc,
       programs = [keywordsHash (displayKeywords (downgradeConfig lin CONFIG)) \<mapsto> 0],
       activeProgram = Some 0,
       uniforms = foldl (\<lambda>us uniformName. us(uniformName \<mapsto> (0, uniformName))) Map.empty
                    (au vsrc (addKeywords dsrc (Some (displayKeywords (downgradeConfig lin CONFIG))))) \<rparr>"
  by (simp add: mountEffect_def Let_def case_prod_beta initFramebuffers_frame
      updateKeywords_def setKeywords_def compileShader_def createProgram_def getUniforms_def
      freshContext_def newMaterial_def addKeywords_def)

lemma mountEffect_program:
  "glPrograms (mountEffect lin au cw ch vsrc dsrc rnd now) 0 = (0, Suc 0)"
  "glShaders (mountEffect lin au cw ch vsrc dsrc rnd now) (Suc 0) =
     (FRAGMENT_SHADER, addKeywords dsrc (Some (displayKeywords (downgradeConfig lin CONFIG))))"
  by (simp_all add: mountEffect_def Let_def case_prod_beta initFramebuffers_frame
      updateKeywords_def setKeywords_def compileShader_def createProgram_def getUniforms_def
      freshContext_def newMaterial_def)

lemma createFBO_heap:
  "doubleFBOs (snd (createFBO w h f fm ty p s)) = doubleFBOs s"
  "doubleFBOCount (snd (createFBO w h f fm ty p s)) = doubleFBOCount s"
  "canvasWidth (snd (createFBO w h f fm ty p s)) = canvasWidth s"
  "canvasHeight (snd (createFBO w h f fm ty p s)) = canvasHeight s"
  by (simp_all add: createFBO_def Let_def)

lemma createDoubleFBO_heap:
  "fst (createDoubleFBO w h f fm ty p s) = doubleFBOCount s"
  "doubleFBOCount (snd (createDoubleFBO w h f fm ty p s)) = Suc (doubleFBOCount s)"
  "canvasWidth (snd (createDoubleFBO w h f fm ty p s)) = canvasWidth s"
  "canvasHeight (snd (createDoubleFBO w h f fm ty p s)) = canvasHeight s"
  "r < doubleFBOCount s \<Longrightarrow>
     doubleFBOs (snd (createDoubleFBO w h f fm ty p s)) r = doubleFBOs s r"
  "dwidth (doubleFBOs (snd (createDoubleFBO w h f fm ty p s)) (doubleFBOCount s)) = w"
  "dheight (doubleFBOs (snd (createDoubleFBO w h f fm ty p s)) (doubleFBOCount s)) = h"
  by (simp_all add: createDoubleFBO_def Let_def case_prod_beta createFBO_heap)

lemma getResolution_canvas:
  "canvasWidth s' = canvasWidth s \<Longrightarrow> canvasHeight s' = canvasHeight s \<Longrightarrow>
   getResolution r s' = getResolution r s"
  by (simp add: getResolution_def)

lemma initFramebuffers_first:
  assumes "dye s = None" "velocity s = None"
  shows "dye (initFramebuffers s) = Some (doubleFBOCount s)"
    and "dwidth (doubleFBOs (initFramebuffers s) (doubleFBOCount s)) =
           fst (getResolution (DYE_RESOLUTION (config s)) s)"
    and "dheight (doubleFBOs (initFramebuffers s) (doubleFBOCount s)) =
           snd (getResolution (DYE_RESOLUTION (config s)) s)"
    and "canvasWidth (initFramebuffers s) = canvasWidth s"
    and "canvasHeight (initFramebuffers s) = canvasHeight s"
  using assms
  by (simp_all add: initFramebuffers_def Let_def case_prod_beta target_frames createFBO_heap
      createDoubleFBO_heap)

lemma setKeywords_vars:
  "dye (snd (setKeywords ks m s)) = dye s"
  "velocity (snd (setKeywords ks m s)) = velocity s"
  "canvasWidth (snd (setKeywords ks m s)) = canvasWidth s"
  "canvasHeight (snd (setKeywords ks m s)) = canvasHeight s"
  "doubleFBOCount (snd (setKeywords ks m s)) = doubleFBOCount s"
  by (simp_all add: setKeywords_def Let_def case_prod_beta compileShader_def createProgram_def
      split: option.split)

lemma updateKeywords_vars:
  "dye (updateKeywords s) = dye s"
  "velocity (updateKeywords s) = velocity s"
  "canvasWidth (updateKeywords s) = canvasWidth s"
  "canvasHeight (updateKeywords s) = canvasHeight s"
  "doubleFBOCount (updateKeywords s) = doubleFBOCount s"
  by (simp_all add: updateKeywords_def case_prod_beta setKeywords_vars)

lemma mountEffect_dye:
  "dye (mountEffect lin au cw ch vsrc dsrc rnd now) = Some 0
   \<and> (dwidth (doubleFBOs (mountEffect lin au cw ch vsrc dsrc rnd now) 0),
       dheight (doubleFBOs (mountEffect lin au cw ch vsrc dsrc rnd now) 0)) =
      getResolution (DYE_RESOLUTION (downgradeConfig lin CONFIG))
        (mountEffect lin au cw ch vsrc dsrc rnd now)"
proof -
  define pre where "pre = updateKeywords
     ((snd (compileShader VERTEX_SHADER vsrc None (freshContext lin au cw ch rnd now)))
        \<lparr> displayMaterial := newMaterial
             (fst (compileShader VERTEX_SHADER vsrc None (freshContext lin au cw ch rnd now))) dsrc \<rparr>)"
  have m: "mountEffect lin au cw ch vsrc dsrc rnd now = initFramebuffers pre"
    by (simp add: mountEffect_def Let_def case_prod_beta pre_def)
  have p: "dye pre = None" "velocity pre = None" "doubleFBOCount pre = 0"
    "config pre = downgradeConfig lin CONFIG"
    by (simp_all add: pre_def updateKeywords_vars updateKeywords_frame compileShader_def
        freshContext_def)
  have g: "getResolution r (initFramebuffers pre) = getResolution r pre" for r
    by (rule getResolution_canvas) (simp_all add: initFramebuffers_first [OF p(1,2)])
  show ?thesis
    using initFramebuffers_first(1,2,3) [OF p(1,2)] by (simp add: m p g)
qed

text \<open>On a canvas of 300 by 150 pixels the dye grid is 512 by 256, against 2880 by 1440.\<close>

lemma dye_resolution_example:
  "getResolution 256 (mountEffect False (\<lambda>v f. []) 300 150 [] [] 0 0) = (512, 256)"
  "getResolution 1440 (mountEffect True (\<lambda>v f. []) 300 150 [] [] 0 0) = (2880, 1440)"
  by (simp_all add: getResolution_def Let_def mountEffect_def case_prod_beta
      initFramebuffers_first updateKeywords_vars compileShader_def freshContext_def)

text \<open>
  Claim C5. Mounted on a context without linear filtering of floating-point textures, the
  configuration has DYE_RESOLUTION 256 and SHADING false; the dye target has the size
  that getResolution gives for 256; the keyword list given to the display material does
  not contain SHADING, and the fragment shader of its active program is the display source
  with no define line in front of it.
\<close>

theorem no_linear_filtering_downgrade:
  "DYE_RESOLUTION (config (mountEffect False au cw ch vsrc dsrc rnd now)) = 256
   \<and> \<not> SHADING (config (mountEffect False au cw ch vsrc dsrc rnd now))
   \<and> dye (mountEffect False au cw ch vsrc dsrc rnd now) = Some 0
   \<and> (dwidth (doubleFBOs (mountEffect False au cw ch vsrc dsrc rnd now) 0),
       dheight (doubleFBOs (mountEffect False au cw ch vsrc dsrc rnd now) 0)) =
      getResolution 256 (mountEffect False au cw ch vsrc dsrc rnd now)
   \<and> ''SHADING'' \<notin> set (displayKeywords (config (mountEffect False au cw ch vsrc dsrc rnd now)))
   \<and> activeProgram (displayMaterial (mountEffect False au cw ch vsrc dsrc rnd now)) = Some 0
   \<and> glShaders (mountEffect False au cw ch vsrc dsrc rnd now)
         (snd (glPrograms (mountEffect False au cw ch vsrc dsrc rnd now) 0)) =
       (FRAGMENT_SHADER, dsrc)"
  using mountEffect_dye [of False au cw ch vsrc dsrc rnd now]
  by (simp add: config_mountEffect mountEffect_material mountEffect_program downgradeConfig_def
      CONFIG_def displayKeywords_def addKeywords_def)

text \<open>With linear filtering the same shader starts with the line that defines SHADING.\<close>

lemma with_linear_filtering:
  "DYE_RESOLUTION (config (mountEffect True au cw ch vsrc dsrc rnd now)) = 1440
   \<and> SHADING (config (mountEffect True au cw ch vsrc dsrc rnd now))
   \<and> glShaders (mountEffect True au cw ch vsrc dsrc rnd now)
         (snd (glPrograms (mountEffect True au cw ch vsrc dsrc rnd now) 0)) =
       (FRAGMENT_SHADER, ''#define SHADING'' @ [CHR 0x0A] @ dsrc)"
  by (simp add: config_mountEffect mountEffect_material mountEffect_program downgradeConfig_def
      CONFIG_def displayKeywords_def addKeywords_def)

section \<open>Vorticity confinement\<close>

lemma vlength_nonneg: "0 \<le> vlength p"
  by (simp add: vlength_def)

lemma vorticityDivisor_pos: "0 < vorticityDivisor uCurl v"
  using vlength_nonneg [of "vorticityGradient uCurl v"] by (simp add: vorticityDivisor_def)

lemma vorticityShader_bounds:
  "- 1000 \<le> vx (vorticityShader uVelocity uCurl k dt v)
   \<and> vx (vorticityShader uVelocity uCurl k dt v) \<le> 1000
   \<and> - 1000 \<le> vy (vorticityShader uVelocity uCurl k dt v)
   \<and> vy (vorticityShader uVelocity uCurl k dt v) \<le> 1000"
  by (simp add: vorticityShader_def Let_def)

lemma storeAs_bounds:
  assumes "- 1000 \<le> vx c \<and> vx c \<le> 1000 \<and> - 1000 \<le> vy c \<and> vy c \<le> 1000"
  shows "- 1000 \<le> vx (storeAs f c) \<and> vx (storeAs f c) \<le> 1000
       \<and> - 1000 \<le> vy (storeAs f c) \<and> vy (storeAs f c) \<le> 1000"
  using assms by (cases f) (simp_all add: storeAs_def)

lemma blit_texel:
  "0 \<le> i \<Longrightarrow> i < int (width t) \<Longrightarrow> 0 \<le> j \<Longrightarrow> j < int (height t) \<Longrightarrow>
   texels (glTextures (blit t ts fr s) (glFramebuffers s (fbo t))) i j =
     storeAs (imgFormat (glTextures s (glFramebuffers s (fbo t))))
       (fr (baseVertexShader ts ((real_of_int i + 1 / 2) / real (width t),
                                 (real_of_int j + 1 / 2) / real (height t))))"
  by (simp add: blit_def Let_def)

lemma glTextures_swap: "glTextures (swap r s) = glTextures s"
  by (simp add: swap_def)

text \<open>
  Claim C4. Whatever the velocity and curl textures, the confinement strength and dt
  are, both velocity components that vorticityShader writes lie between -1000 and 1000,
  and the divisor of the force normalisation is positive. Hence after the vorticity pass
  of step every texel inside the velocity target it drew into has both components
  between -1000 and 1000.
\<close>

theorem vorticity_clamped:
  "- 1000 \<le> vx (vorticityShader uVelocity uCurl k dt v)
   \<and> vx (vorticityShader uVelocity uCurl k dt v) \<le> 1000
   \<and> - 1000 \<le> vy (vorticityShader uVelocity uCurl k dt v)
   \<and> vy (vorticityShader uVelocity uCurl k dt v) \<le> 1000
   \<and> 0 < vorticityDivisor uCurl v
   \<and> (0 \<le> i \<and> i < int (width (write_FBO (doubleFBOs s r))) \<and>
       0 \<le> j \<and> j < int (height (write_FBO (doubleFBOs s r))) \<longrightarrow>
        - 1000 \<le> vx (texels (glTextures (vorticityPass dt r c s)
                       (glFramebuffers s (fbo (write_FBO (doubleFBOs s r))))) i j)
        \<and> vx (texels (glTextures (vorticityPass dt r c s)
                       (glFramebuffers s (fbo (write_FBO (doubleFBOs s r))))) i j) \<le> 1000
        \<and> - 1000 \<le> vy (texels (glTextures (vorticityPass dt r c s)
                       (glFramebuffers s (fbo (write_FBO (doubleFBOs s r))))) i j)
        \<and> vy (texels (glTextures (vorticityPass dt r c s)
                       (glFramebuffers s (fbo (write_FBO (doubleFBOs s r))))) i j) \<le> 1000)"
proof -
  have "- 1000 \<le> vx (texels (glTextures (vorticityPass dt r c s)
                       (glFramebuffers s (fbo (write_FBO (doubleFBOs s r))))) i j)
        \<and> vx (texels (glTextures (vorticityPass dt r c s)
                       (glFramebuffers s (fbo (write_FBO (doubleFBOs s r))))) i j) \<le> 1000
        \<and> - 1000 \<le> vy (texels (glTextures (vorticityPass dt r c s)
                       (glFramebuffers s (fbo (write_FBO (doubleFBOs s r))))) i j)
        \<and> vy (texels (glTextures (vorticityPass dt r c s)
                       (glFramebuffers s (fbo (write_FBO (doubleFBOs s r))))) i j) \<le> 1000"
    if "0 \<le> i" "i < int (width (write_FBO (doubleFBOs s r)))"
       "0 \<le> j" "j < int (height (write_FBO (doubleFBOs s r)))"
    unfolding vorticityPass_def glTextures_swap blit_texel [OF that]
    by (rule storeAs_bounds) (rule vorticityShader_bounds)
  then show ?thesis
    using vorticityShader_bounds [of uVelocity uCurl k dt v] vorticityDivisor_pos [of uCurl v]
    by blast
qed

theorem vorticity_clamped_witness:
  "(0::int) \<le> 3 \<and> 3 < int (width (write_FBO (doubleFBOs sampleWorld 0)))
   \<and> (0::int) \<le> 1 \<and> 1 < int (height (write_FBO (doubleFBOs sampleWorld 0)))
   \<and> - 1000 \<le> vx (texels (glTextures (vorticityPass (1 / 60) 0 noFBO sampleWorld)
                       (glFramebuffers sampleWorld (fbo (write_FBO (doubleFBOs sampleWorld 0))))) 3 1)
   \<and> vy (texels (glTextures (vorticityPass (1 / 60) 0 noFBO sampleWorld)
                       (glFramebuffers sampleWorld (fbo (write_FBO (doubleFBOs sampleWorld 0))))) 3 1)
        \<le> 1000"
proof -
  have h: "(0::int) \<le> 3 \<and> 3 < int (width (write_FBO (doubleFBOs sampleWorld 0)))
      \<and> (0::int) \<le> 1 \<and> 1 < int (height (write_FBO (doubleFBOs sampleWorld 0)))"
    by (simp add: sampleWorld_obj write_FBO_def)
  show ?thesis
    using h vorticity_clamped [of noTexture noTexture 5 "1 / 60" "baseVertexShader (0, 0) (0, 0)"
        3 sampleWorld 0 1 noFBO]
    by blast
qed

end
